theory Spec2Isabelle
  imports Complex_Main "HOL-Library.Word"
begin

unbundle bit_operations_syntax

text \<open>
  A model of the reliable datagram engine of nest-udp (TypeScript, under
  \<^verbatim>\<open>lib/helpers/reliable-udp-socket\<close> and \<^verbatim>\<open>lib/compression\<close>): the envelope codec, the
  chunker and reassembler, the snowflake id generator, the compression pipeline, the
  request tracker and the send and receive paths of the engine. The definitions come
  first, each named after the function or type of the source that it follows; the
  properties proved about them come after, from the section on the envelope codec's
  properties on. Logger output is modelled only where a property speaks about it.
\<close>

section \<open>JavaScript values and the Node runtime\<close>

text \<open>
  Values that travel in an envelope body are JSON values (the source types them
  \<^verbatim>\<open>any\<close>). Numbers are restricted to integers; no definition below computes with a
  fractional body value.
\<close>

datatype jsvalue =
    JNull
  | JBool bool
  | JNum int
  | JStr string
  | JArr "jsvalue list"
  | JObj "(string \<times> jsvalue) list"

type_synonym buffer = "8 word list"

text \<open>
  Library functions of Node that the repository calls but does not define are taken as
  parameters, collected in one record. Every theorem holds for every such record.
  \<^item> \<open>utf8_encode\<close>: \<^verbatim>\<open>Buffer.from(s, 'utf8')\<close>, so that
    \<^verbatim>\<open>Buffer.byteLength(s, 'utf8')\<close> is the length of the result;
  \<^item> \<open>utf8_decode\<close>: \<^verbatim>\<open>buf.toString('utf8')\<close>;
  \<^item> \<open>base64_encode\<close>: \<^verbatim>\<open>buf.toString('base64')\<close>;
  \<^item> \<open>base64_decode\<close>: \<^verbatim>\<open>Buffer.from(s, 'base64')\<close> on a string (it never throws);
  \<^item> \<open>buffer_from_object\<close>: \<^verbatim>\<open>Buffer.from(v, 'base64')\<close> on an array or object,
    \<open>None\<close> when it throws a TypeError;
  \<^item> \<open>json_stringify\<close>, \<open>json_parse\<close> (\<open>None\<close> for a SyntaxError), \<open>sha256_hex\<close>
    (\<^verbatim>\<open>createHash('sha256').update(s).digest('hex')\<close>).
\<close>

record node_runtime =
  utf8_encode :: "string \<Rightarrow> buffer"
  utf8_decode :: "buffer \<Rightarrow> string"
  base64_encode :: "buffer \<Rightarrow> string"
  base64_decode :: "string \<Rightarrow> buffer"
  buffer_from_object :: "jsvalue \<Rightarrow> buffer option"
  json_stringify :: "jsvalue \<Rightarrow> string"
  json_parse :: "string \<Rightarrow> jsvalue option"
  sha256_hex :: "string \<Rightarrow> string"

definition byteLength :: "node_runtime \<Rightarrow> string \<Rightarrow> nat" where
  "byteLength rt s = length (utf8_encode rt s)"

text \<open>
  \<^verbatim>\<open>Buffer.from(value, 'base64')\<close>: a string is decoded; \<^verbatim>\<open>null\<close>, a boolean and
  a number raise a TypeError (\<open>None\<close>); arrays and objects go to the runtime.
\<close>

fun buffer_from_base64 :: "node_runtime \<Rightarrow> jsvalue \<Rightarrow> buffer option" where
  "buffer_from_base64 rt (JStr s) = Some (base64_decode rt s)"
| "buffer_from_base64 rt JNull = None"
| "buffer_from_base64 rt (JBool b) = None"
| "buffer_from_base64 rt (JNum n) = None"
| "buffer_from_base64 rt v = buffer_from_object rt v"

text \<open>
  The bitwise operators of JavaScript numbers work on the 32-bit two's complement image
  of their operands (ToInt32) and return a signed 32-bit value; a shift count is taken
  modulo 32.
\<close>

definition to_int32 :: "int \<Rightarrow> int" where
  "to_int32 x = signed_take_bit 31 x"

definition js_or :: "int \<Rightarrow> int \<Rightarrow> int" where
  "js_or a b = to_int32 a OR to_int32 b"

definition js_and :: "int \<Rightarrow> int \<Rightarrow> int" where
  "js_and a b = to_int32 a AND to_int32 b"

definition js_shl :: "int \<Rightarrow> int \<Rightarrow> int" where
  "js_shl a n = to_int32 (push_bit (nat (n mod 32)) (to_int32 a))"

definition js_sar :: "int \<Rightarrow> int \<Rightarrow> int" where
  "js_sar a n = drop_bit (nat (n mod 32)) (to_int32 a)"

text \<open>Decimal rendering of a number, as a template literal or \<^verbatim>\<open>toString()\<close> gives it.\<close>

definition digit_char :: "int \<Rightarrow> char" where
  "digit_char d = char_of (48 + d)"

function dec_digits :: "int \<Rightarrow> string" where
  "dec_digits n = (if n < 10 then [digit_char n] else dec_digits (n div 10) @ [digit_char (n mod 10)])"
  by pat_completeness auto
termination
  by (relation "measure nat") auto

declare dec_digits.simps [simp del]

definition int_toString :: "int \<Rightarrow> string" where
  "int_toString x = (if x < 0 then CHR ''-'' # dec_digits (- x) else dec_digits x)"

section \<open>Envelope codec (message-envelope.handler.ts, reliable-udp-socket.types.ts)\<close>

datatype MessageType = REQ | ACK | RES

fun MessageType_value :: "MessageType \<Rightarrow> int" where
  "MessageType_value REQ = 0"
| "MessageType_value ACK = 1"
| "MessageType_value RES = 2"

datatype CompressionCodecType = NONE | GZIP | SNAPPY | LZ4 | ZSTD

text \<open>The numeric value of the enum \<^verbatim>\<open>CompressionCodecType\<close> (declared without initialisers).\<close>

fun CompressionCodecType_value :: "CompressionCodecType \<Rightarrow> int" where
  "CompressionCodecType_value NONE = 0"
| "CompressionCodecType_value GZIP = 1"
| "CompressionCodecType_value SNAPPY = 2"
| "CompressionCodecType_value LZ4 = 3"
| "CompressionCodecType_value ZSTD = 4"

text \<open>The enum \<^verbatim>\<open>CodecIndex\<close> and the enum \<^verbatim>\<open>FlagBits\<close>, as their numeric values.\<close>

definition CodecIndex_NONE :: int where "CodecIndex_NONE = 0"
definition CodecIndex_GZIP :: int where "CodecIndex_GZIP = 1"
definition CodecIndex_SNAPPY :: int where "CodecIndex_SNAPPY = 2"
definition CodecIndex_LZ4 :: int where "CodecIndex_LZ4 = 3"
definition CodecIndex_ZSTD :: int where "CodecIndex_ZSTD = 4"

definition CODEC_MASK :: int where "CODEC_MASK = 7"
definition COMPRESSED :: int where "COMPRESSED = 8"
definition CHUNKED :: int where "CHUNKED = 16"
definition TYPE_MASK :: int where "TYPE_MASK = 96"
definition TYPE_SHIFT :: int where "TYPE_SHIFT = 5"

text \<open>\<^verbatim>\<open>CODEC_TO_INDEX\<close>: a record keyed by codec name; \<open>None\<close> for a missing key.\<close>

definition CODEC_TO_INDEX :: "string \<Rightarrow> int option" where
  "CODEC_TO_INDEX name =
     (if name = ''none'' then Some CodecIndex_NONE
      else if name = ''gzip'' then Some CodecIndex_GZIP
      else if name = ''snappy'' then Some CodecIndex_SNAPPY
      else if name = ''lz4'' then Some CodecIndex_LZ4
      else if name = ''zstd'' then Some CodecIndex_ZSTD
      else None)"

text \<open>\<^verbatim>\<open>INDEX_TO_CODEC\<close>: an array of five entries; \<open>None\<close> past its end.\<close>

definition INDEX_TO_CODEC :: "int \<Rightarrow> CompressionCodecType option" where
  "INDEX_TO_CODEC i =
     (if i = 0 then Some NONE
      else if i = 1 then Some GZIP
      else if i = 2 then Some SNAPPY
      else if i = 3 then Some LZ4
      else if i = 4 then Some ZSTD
      else None)"

text \<open>
  The parameter \<^verbatim>\<open>codec: CompressionCodecType | 'none'\<close> of \<^verbatim>\<open>encodeFlags\<close> is a number
  (a member of the numeric enum) or a string; \<^verbatim>\<open>typeof codec === 'number'\<close> tells them
  apart.
\<close>

datatype codec_arg = CodecNumber int | CodecName string

text \<open>\<^verbatim>\<open>CODEC_TO_INDEX[codec] || CodecIndex.NONE\<close>: a missing key and the index 0 are both falsy.\<close>

definition encodeFlags :: "int \<Rightarrow> codec_arg \<Rightarrow> bool \<Rightarrow> bool \<Rightarrow> int" where
  "encodeFlags type codec isCompressed isChunked =
     (let flags0 = 0;
          codecIndex = (case codec of
                          CodecNumber n \<Rightarrow> n
                        | CodecName s \<Rightarrow> (case CODEC_TO_INDEX s of
                                            None \<Rightarrow> CodecIndex_NONE
                                          | Some i \<Rightarrow> if i = 0 then CodecIndex_NONE else i));
          flags1 = js_or flags0 codecIndex;
          flags2 = (if isCompressed then js_or flags1 COMPRESSED else flags1);
          flags3 = (if isChunked then js_or flags2 CHUNKED else flags2)
      in js_or flags3 (js_shl type TYPE_SHIFT))"

text \<open>
  \<^verbatim>\<open>DecodedFlags\<close>. The type is the number that the shift leaves (0 to 3); the source
  does not check that it is a member of \<^verbatim>\<open>MessageType\<close>.
\<close>

record DecodedFlags =
  df_type :: int
  df_codec :: CompressionCodecType
  df_isCompressed :: bool
  df_isChunked :: bool

text \<open>\<^verbatim>\<open>INDEX_TO_CODEC[codecIndex] || CompressionCodecType.NONE\<close>: NONE is 0, hence falsy.\<close>

definition decodeFlags :: "int option \<Rightarrow> DecodedFlags option" where
  "decodeFlags flags =
     (case flags of
        None \<Rightarrow> None
      | Some f \<Rightarrow>
          (let codecIndex = js_and f CODEC_MASK;
               codec = (case INDEX_TO_CODEC codecIndex of None \<Rightarrow> NONE | Some c \<Rightarrow> c);
               isCompressed = (js_and f COMPRESSED \<noteq> 0);
               isChunked = (js_and f CHUNKED \<noteq> 0);
               type = js_sar (js_and f TYPE_MASK) TYPE_SHIFT
           in Some \<lparr>df_type = type, df_codec = codec,
                     df_isCompressed = isCompressed, df_isChunked = isChunked\<rparr>))"

text \<open>
  \<^verbatim>\<open>MessageEnvelope\<close>. An optional property is an \<open>option\<close>; JSON serialisation drops a
  property whose value is \<^verbatim>\<open>undefined\<close>.
\<close>

record MessageEnvelope =
  env_id :: string
  env_body :: jsvalue
  env_checksum :: "string option"
  env_flags :: "int option"
  env_type :: "int option"
  env_ci :: "int option"
  env_ct :: "int option"
  env_os :: "int option"
  env_cs :: "int option"

record MessageEnvelopOptions =
  opt_checksum :: "string option"
  opt_codec :: "CompressionCodecType option"
  opt_isCompressed :: "bool option"
  opt_isChunked :: "bool option"
  opt_chunkIndex :: "int option"
  opt_chunkTotal :: "int option"
  opt_originalSize :: "int option"
  opt_compressedSize :: "int option"

definition no_options :: MessageEnvelopOptions where
  "no_options = \<lparr>opt_checksum = None, opt_codec = None, opt_isCompressed = None,
     opt_isChunked = None, opt_chunkIndex = None, opt_chunkTotal = None,
     opt_originalSize = None, opt_compressedSize = None\<rparr>"

text \<open>A string is truthy when it is defined and not empty.\<close>

definition truthy_string :: "string option \<Rightarrow> bool" where
  "truthy_string s = (case s of None \<Rightarrow> False | Some t \<Rightarrow> t \<noteq> [])"

definition createEnvelope ::
  "string \<Rightarrow> MessageType \<Rightarrow> jsvalue \<Rightarrow> MessageEnvelopOptions \<Rightarrow> MessageEnvelope" where
  "createEnvelope ident type body options =
     (let checksum = opt_checksum options;
          codec = (case opt_codec options of None \<Rightarrow> NONE | Some c \<Rightarrow> c);
          isCompressed = (case opt_isCompressed options of None \<Rightarrow> False | Some b \<Rightarrow> b);
          isChunked = (case opt_isChunked options of None \<Rightarrow> False | Some b \<Rightarrow> b);
          chunkIndex = opt_chunkIndex options;
          chunkTotal = opt_chunkTotal options;
          originalSize = opt_originalSize options;
          compressedSize = opt_compressedSize options;
          envelope0 = \<lparr>env_id = ident, env_body = body, env_checksum = None,
                       env_flags = Some (encodeFlags (MessageType_value type)
                          (CodecNumber (CompressionCodecType_value codec)) isCompressed isChunked),
                       env_type = None, env_ci = None, env_ct = None,
                       env_os = None, env_cs = None\<rparr>;
          envelope1 = (if truthy_string checksum
                       then envelope0\<lparr>env_checksum := checksum\<rparr> else envelope0);
          envelope2 = (if isCompressed
                       then envelope1\<lparr>env_os := originalSize, env_cs := compressedSize\<rparr>
                       else envelope1);
          envelope3 = (if isChunked \<and> chunkIndex \<noteq> None \<and> chunkTotal \<noteq> None
                       then envelope2\<lparr>env_ci := chunkIndex, env_ct := chunkTotal\<rparr>
                       else envelope2)
      in envelope3)"

section \<open>Chunker and reassembler (chunking.handler.ts)\<close>

datatype js_error =
    Error string
  | RangeError string
  | TypeError string
  | SyntaxError string

record RemoteInfo =
  rinfo_address :: string
  rinfo_family :: string
  rinfo_port :: int
  rinfo_size :: int

record ChunkingHandlerConfig =
  chunkSize :: int
  reassemblyTimeout :: int

text \<open>
  \<^verbatim>\<open>ChunkedMessageAssembly\<close>. A slot of \<^verbatim>\<open>chunks: (any | null)[]\<close> holds a JSON value,
  and \<^verbatim>\<open>null\<close> doubles as the mark of an empty slot. The set \<^verbatim>\<open>acksReceived\<close> is
  created empty and never touched again.
\<close>

record ChunkedMessageAssembly =
  chunks :: "jsvalue list"
  totalChunks :: int
  receivedCount :: int
  acksReceived :: "int list"
  timestamp :: int
  remoteInfo :: "RemoteInfo option"
  compressionCodec :: "CompressionCodecType option"

record ChunkingHandler =
  chunking_config :: ChunkingHandlerConfig
  assemblies :: "string \<rightharpoonup> ChunkedMessageAssembly"

text \<open>
  \<^verbatim>\<open>createChunks(data: string | Buffer)\<close>. With a positive chunk size the loop runs
  \<^verbatim>\<open>Math.ceil(length / chunkSize)\<close> times. With chunk size 0 and a non-empty buffer the
  bound is \<^verbatim>\<open>Infinity\<close>: the loop pushes empty chunks until the process gives up, and
  no list is returned (\<open>None\<close>); with chunk size 0 and an empty buffer the bound is
  \<^verbatim>\<open>NaN\<close>, and with a negative chunk size it is at most 0: the loop body never runs. The quotient is taken exactly (buffer lengths are far below
  the range where the double quotient could round to another ceiling).
\<close>

definition ceil_div :: "int \<Rightarrow> int \<Rightarrow> int" where
  "ceil_div a b = - ((- a) div b)"

definition subarray :: "buffer \<Rightarrow> int \<Rightarrow> int \<Rightarrow> buffer" where
  "subarray b start end = take (nat (end - start)) (drop (nat start) b)"

definition createChunks ::
  "node_runtime \<Rightarrow> ChunkingHandlerConfig \<Rightarrow> string + buffer \<Rightarrow> string list option" where
  "createChunks rt cfg data =
     (let buffer = (case data of Inl s \<Rightarrow> utf8_encode rt s | Inr b \<Rightarrow> b);
          len = int (length buffer)
      in if chunkSize cfg = 0 then (if len = 0 then Some [] else None)
         else if chunkSize cfg < 0 then Some []
         else
           (let totalChunks = ceil_div len (chunkSize cfg)
            in Some (map (\<lambda>i. let start = int i * chunkSize cfg;
                                   end = min (start + chunkSize cfg) len
                               in base64_encode rt (subarray buffer start end))
                         [0 ..< nat totalChunks])))"

text \<open>
  \<^verbatim>\<open>new Array(totalChunks).fill(null)\<close> raises a RangeError unless the length is an
  integer from 0 to \<open>2^32 - 1\<close>. The clock reading \<^verbatim>\<open>Date.now()\<close> is the parameter \<open>now\<close>.
\<close>

definition initAssembly ::
  "ChunkingHandler \<Rightarrow> int \<Rightarrow> string \<Rightarrow> int \<Rightarrow> RemoteInfo option
     \<Rightarrow> CompressionCodecType option \<Rightarrow> js_error + ChunkingHandler" where
  "initAssembly h now messageId total_chunks rinfo codec =
     (if total_chunks < 0 \<or> 2 ^ 32 \<le> total_chunks then Inl (RangeError ''Invalid array length'')
      else Inr (h\<lparr>assemblies := (assemblies h)(messageId \<mapsto>
              \<lparr>chunks = replicate (nat total_chunks) JNull, totalChunks = total_chunks, receivedCount = 0,
                acksReceived = [], timestamp = now, remoteInfo = rinfo,
                compressionCodec = codec\<rparr>)\<rparr>))"

text \<open>Reading an array element: \<open>None\<close> is \<^verbatim>\<open>undefined\<close>, the value of a missing index.\<close>

definition array_get :: "'a list \<Rightarrow> int \<Rightarrow> 'a option" where
  "array_get xs i = (if 0 \<le> i \<and> i < int (length xs) then Some (xs ! nat i) else None)"

text \<open>
  \<^verbatim>\<open>addChunk\<close>. The assembly object is mutated in place; the model stores the updated
  assembly back under its key. The write happens only where the read returned
  \<^verbatim>\<open>null\<close>, which is inside the array.
\<close>

definition addChunk ::
  "ChunkingHandler \<Rightarrow> string \<Rightarrow> int \<Rightarrow> jsvalue \<Rightarrow> bool \<times> ChunkingHandler" where
  "addChunk h messageId chunkIndex chunkData =
     (case assemblies h messageId of
        None \<Rightarrow> (False, h)
      | Some assembly \<Rightarrow>
          if array_get (chunks assembly) chunkIndex = Some JNull
          then (let assembly' = assembly\<lparr>chunks := (chunks assembly)[nat chunkIndex := chunkData],
                                          receivedCount := receivedCount assembly + 1\<rparr>
                in (receivedCount assembly' = totalChunks assembly',
                    h\<lparr>assemblies := (assemblies h)(messageId \<mapsto> assembly')\<rparr>))
          else (receivedCount assembly = totalChunks assembly, h))"

text \<open>A sequence of \<^verbatim>\<open>addChunk\<close> calls on one assembly, given as (index, data) pairs.\<close>

fun addChunks :: "ChunkingHandler \<Rightarrow> string \<Rightarrow> (int \<times> jsvalue) list \<Rightarrow> ChunkingHandler" where
  "addChunks h messageId [] = h"
| "addChunks h messageId ((i, d) # calls) = addChunks (snd (addChunk h messageId i d)) messageId calls"

text \<open>
  For an assembly none of whose chunks had \<^verbatim>\<open>null\<close> data: the slot array has
  \<open>totalChunks\<close> entries and \<open>receivedCount\<close> is the number of filled slots.
\<close>

definition assembly_inv :: "ChunkedMessageAssembly \<Rightarrow> bool" where
  "assembly_inv a = (int (length (chunks a)) = totalChunks a \<and>
     receivedCount a = int (length (filter (\<lambda>c. c \<noteq> JNull) (chunks a))))"

record AssembledData =
  asm_data :: buffer
  asm_compressionCodec :: "CompressionCodecType option"

text \<open>
  \<^verbatim>\<open>getAssembledData\<close>. The \<^verbatim>\<open>try\<close> block decodes every slot with
  \<^verbatim>\<open>Buffer.from(chunk, 'base64')\<close>; a slot on which that throws sends control to the
  \<^verbatim>\<open>catch\<close>, which returns \<^verbatim>\<open>null\<close>.
\<close>

definition getAssembledData ::
  "node_runtime \<Rightarrow> ChunkingHandler \<Rightarrow> string \<Rightarrow> AssembledData option" where
  "getAssembledData rt h messageId =
     (case assemblies h messageId of
        None \<Rightarrow> None
      | Some assembly \<Rightarrow>
          if receivedCount assembly \<noteq> totalChunks assembly then None
          else if list_ex (\<lambda>chunk. chunk = JNull) (chunks assembly) then None
          else (case those (map (buffer_from_base64 rt) (chunks assembly)) of
                  None \<Rightarrow> None
                | Some buffers \<Rightarrow>
                    Some \<lparr>asm_data = concat buffers,
                          asm_compressionCodec = compressionCodec assembly\<rparr>))"

definition getAssembly :: "ChunkingHandler \<Rightarrow> string \<Rightarrow> ChunkedMessageAssembly option" where
  "getAssembly h messageId = assemblies h messageId"

definition removeAssembly :: "ChunkingHandler \<Rightarrow> string \<Rightarrow> bool \<times> ChunkingHandler" where
  "removeAssembly h messageId =
     (assemblies h messageId \<noteq> None, h\<lparr>assemblies := (assemblies h)(messageId := None)\<rparr>)"

section \<open>Snowflake identifier generator (snowflake-id.generator.ts)\<close>

text \<open>
  \<^verbatim>\<open>BigInt(string)\<close> on a decimal literal with an optional sign, and on the empty
  string (which is \<open>0n\<close>); \<open>None\<close> is the SyntaxError. The other literals that
  \<^verbatim>\<open>BigInt\<close> accepts (surrounding white space, the prefixes 0x, 0o, 0b) are never
  produced by \<^verbatim>\<open>toString()\<close> and are outside this model.
\<close>

definition digit_value :: "char \<Rightarrow> int option" where
  "digit_value c = (let n = (of_char c :: int) in if 48 \<le> n \<and> n \<le> 57 then Some (n - 48) else None)"

fun parse_digits_from :: "int \<Rightarrow> string \<Rightarrow> int option" where
  "parse_digits_from acc [] = Some acc"
| "parse_digits_from acc (c # cs) =
     (case digit_value c of None \<Rightarrow> None | Some d \<Rightarrow> parse_digits_from (10 * acc + d) cs)"

definition bigint_of_string :: "string \<Rightarrow> int option" where
  "bigint_of_string s =
     (case s of
        [] \<Rightarrow> Some 0
      | c # cs \<Rightarrow>
          if c = CHR ''-'' then
            (if cs = [] then None else map_option uminus (parse_digits_from 0 cs))
          else if c = CHR ''+'' then
            (if cs = [] then None else parse_digits_from 0 cs)
          else parse_digits_from 0 s)"

text \<open>
  \<^verbatim>\<open>Number(bigint)\<close>: exact below \<open>2^53\<close>; above, the nearest double, ties to the even
  mantissa. (Magnitudes from \<open>2^1024\<close> on, which give \<^verbatim>\<open>Infinity\<close>, are outside
  this model.)
\<close>

function excess_bits :: "int \<Rightarrow> nat" where
  "excess_bits a = (if a < 2 ^ 53 then 0 else Suc (excess_bits (a div 2)))"
  by pat_completeness auto
termination
  by (relation "measure nat") auto

declare excess_bits.simps [simp del]

definition number_of_bigint :: "int \<Rightarrow> int" where
  "number_of_bigint x =
     (let a = \<bar>x\<bar> in
      if a < 2 ^ 53 then x
      else (let e = excess_bits a;
                q = a div 2 ^ e;
                r = a mod 2 ^ e;
                half = 2 ^ (e - 1);
                m = (if half < r \<or> (r = half \<and> odd q) then q + 1 else q)
            in sgn x * (m * 2 ^ e)))"

definition SNOWFLAKE_WORKER_ID_BITS :: nat where "SNOWFLAKE_WORKER_ID_BITS = 10"
definition SNOWFLAKE_SEQUENCE_BITS :: nat where "SNOWFLAKE_SEQUENCE_BITS = 12"
definition SNOWFLAKE_MAX_WORKER_ID :: int where
  "SNOWFLAKE_MAX_WORKER_ID = push_bit SNOWFLAKE_WORKER_ID_BITS 1 - 1"
definition SNOWFLAKE_MAX_SEQUENCE :: int where
  "SNOWFLAKE_MAX_SEQUENCE = push_bit SNOWFLAKE_SEQUENCE_BITS 1 - 1"
definition SNOWFLAKE_WORKER_ID_SHIFT :: nat where
  "SNOWFLAKE_WORKER_ID_SHIFT = SNOWFLAKE_SEQUENCE_BITS"
definition SNOWFLAKE_TIMESTAMP_SHIFT :: nat where
  "SNOWFLAKE_TIMESTAMP_SHIFT = SNOWFLAKE_WORKER_ID_BITS + SNOWFLAKE_SEQUENCE_BITS"
definition SNOWFLAKE_DEFAULT_EPOCH :: int where
  "SNOWFLAKE_DEFAULT_EPOCH = 1704067200000"

record SnowflakeConfig =
  workerId :: int
  epoch :: int

record SnowflakeIdGenerator =
  sf_config :: SnowflakeConfig
  sf_sequence :: int
  sf_lastTimestamp :: int

definition new_SnowflakeIdGenerator :: "int \<Rightarrow> int option \<Rightarrow> js_error + SnowflakeIdGenerator" where
  "new_SnowflakeIdGenerator worker_id epoch_opt =
     (if worker_id < 0 \<or> worker_id > SNOWFLAKE_MAX_WORKER_ID
      then Inl (Error ''Worker ID must be between 0 and 1023'')
      else Inr \<lparr>sf_config = \<lparr>workerId = worker_id,
                   epoch = (case epoch_opt of None \<Rightarrow> SNOWFLAKE_DEFAULT_EPOCH | Some e \<Rightarrow> e)\<rparr>,
                sf_sequence = 0, sf_lastTimestamp = - 1\<rparr>)"

text \<open>
  The packing step of \<^verbatim>\<open>generate\<close>, on BigInts:
  \<^verbatim>\<open>((timestamp - epoch) << 22n) | (workerId << 12n) | sequence\<close>.
\<close>

definition compose_id :: "int \<Rightarrow> int \<Rightarrow> int \<Rightarrow> int \<Rightarrow> int" where
  "compose_id epoch_ms timestamp_ms worker_id seq =
     push_bit SNOWFLAKE_TIMESTAMP_SHIFT (timestamp_ms - epoch_ms)
       OR push_bit SNOWFLAKE_WORKER_ID_SHIFT worker_id
       OR seq"

text \<open>
  The clock is the list of the values that successive calls of \<^verbatim>\<open>Date.now()\<close> return.
  \<^verbatim>\<open>generate\<close> takes the readings it makes from the front and returns the rest. The
  busy-wait of \<^verbatim>\<open>_waitNextMillis\<close> reads the clock until it passes the last timestamp;
  the result is \<open>None\<close> when the readings end before that happens.
\<close>

fun waitNextMillis :: "int \<Rightarrow> int list \<Rightarrow> (int \<times> int list) option" where
  "waitNextMillis lastTimestamp [] = None"
| "waitNextMillis lastTimestamp (t # clock) =
     (if t \<le> lastTimestamp then waitNextMillis lastTimestamp clock else Some (t, clock))"

definition generate ::
  "SnowflakeIdGenerator \<Rightarrow> int list \<Rightarrow> ((js_error + string) \<times> SnowflakeIdGenerator \<times> int list) option" where
  "generate g clock =
     (case clock of
        [] \<Rightarrow> None
      | t0 # clock1 \<Rightarrow>
          (let step = (if t0 = sf_lastTimestamp g
                       then (let s = (sf_sequence g + 1) AND SNOWFLAKE_MAX_SEQUENCE
                             in if s = 0
                                then map_option (\<lambda>(t, c). (t, s, c)) (waitNextMillis (sf_lastTimestamp g) clock1)
                                else Some (t0, s, clock1))
                       else Some (t0, 0, clock1))
           in case step of
                None \<Rightarrow> None
              | Some (ts, s, clock2) \<Rightarrow>
                  if ts < sf_lastTimestamp g
                  then Some (Inl (Error ''Clock moved backwards. Refusing to generate ID.''),
                             g\<lparr>sf_sequence := s\<rparr>, clock2)
                  else Some (Inr (int_toString (compose_id (epoch (sf_config g)) ts
                                     (workerId (sf_config g)) s)),
                             g\<lparr>sf_sequence := s, sf_lastTimestamp := ts\<rparr>, clock2)))"

text \<open>\<^verbatim>\<open>SnowflakeIdGenerator.parse\<close>; \<open>Inl\<close> is the SyntaxError of \<^verbatim>\<open>BigInt(id)\<close>.\<close>

record ParsedId =
  p_timestamp :: int
  p_workerId :: int
  p_sequence :: int

definition parse_id :: "SnowflakeIdGenerator \<Rightarrow> string \<Rightarrow> js_error + ParsedId" where
  "parse_id g ident =
     (case bigint_of_string ident of
        None \<Rightarrow> Inl (SyntaxError ''Cannot convert to a BigInt'')
      | Some snowflakeId \<Rightarrow>
          Inr \<lparr>p_timestamp = number_of_bigint
                   (drop_bit SNOWFLAKE_TIMESTAMP_SHIFT snowflakeId + epoch (sf_config g)),
               p_workerId = number_of_bigint
                   (drop_bit SNOWFLAKE_WORKER_ID_SHIFT snowflakeId AND SNOWFLAKE_MAX_WORKER_ID),
               p_sequence = number_of_bigint (snowflakeId AND SNOWFLAKE_MAX_SEQUENCE)\<rparr>)"


section \<open>Double-precision arithmetic\<close>

text \<open>
  A finite double is represented by the rational number it denotes. \<open>round_ratio n d\<close>
  is the double nearest to \<open>n / d\<close> (for \<open>d > 0\<close>), ties to the even mantissa, as every
  IEEE 754 operation rounds its exact result. Only the normal range is modelled: the
  operands below are byte counts and the constants 1 and 100.
\<close>

function bit_length :: "int \<Rightarrow> int" where
  "bit_length a = (if a \<le> 0 then 0 else 1 + bit_length (a div 2))"
  by pat_completeness auto
termination
  by (relation "measure nat") auto

declare bit_length.simps [simp del]

definition pow2 :: "int \<Rightarrow> rat" where
  "pow2 e = (if 0 \<le> e then of_int (2 ^ nat e) else 1 / of_int (2 ^ nat (- e)))"

definition round_half_even :: "int \<Rightarrow> int \<Rightarrow> int" where
  "round_half_even n d =
     (let k = n div d; r = n mod d
      in if d < 2 * r \<or> (2 * r = d \<and> odd k) then k + 1 else k)"

definition round_ratio :: "int \<Rightarrow> int \<Rightarrow> rat" where
  "round_ratio n d =
     (if n = 0 then 0
      else (let a = \<bar>n\<bar>;
                e0 = bit_length a - bit_length d - 53;
                e = (if (if 0 \<le> e0 then d * 2 ^ nat e0 * 2 ^ 53 \<le> a
                         else d * 2 ^ 53 \<le> a * 2 ^ nat (- e0))
                     then e0 + 1 else e0);
                m = (if 0 \<le> e then round_half_even a (d * 2 ^ nat e)
                     else round_half_even (a * 2 ^ nat (- e)) d)
            in of_int (sgn n * m) * pow2 e))"

definition round_double :: "rat \<Rightarrow> rat" where
  "round_double x = (case quotient_of x of (n, d) \<Rightarrow> round_ratio n d)"

definition fl_div :: "rat \<Rightarrow> rat \<Rightarrow> rat" where "fl_div x y = round_double (x / y)"
definition fl_sub :: "rat \<Rightarrow> rat \<Rightarrow> rat" where "fl_sub x y = round_double (x - y)"
definition fl_mul :: "rat \<Rightarrow> rat \<Rightarrow> rat" where "fl_mul x y = round_double (x * y)"

datatype jsnum = Finite rat | NegInfinity | NaN

fun js_ge :: "jsnum \<Rightarrow> rat \<Rightarrow> bool" where
  "js_ge (Finite x) y = (y \<le> x)"
| "js_ge NegInfinity y = False"
| "js_ge NaN y = False"

definition COMPRESSION_REDUCTION_MULTIPLIER :: rat where
  "COMPRESSION_REDUCTION_MULTIPLIER = 100"

definition reduction_pct :: "int \<Rightarrow> int \<Rightarrow> jsnum" where
  "reduction_pct originalSize compressedSize =
     (if originalSize = 0 then (if compressedSize = 0 then NaN else NegInfinity)
      else Finite (fl_mul (fl_sub 1 (fl_div (of_int compressedSize) (of_int originalSize)))
                     COMPRESSION_REDUCTION_MULTIPLIER))"

section \<open>Codec registry and compression pipeline (compression.factory.ts, compression.handler.ts)\<close>

text \<open>
  A codec object: its \<^verbatim>\<open>name\<close>, its two asynchronous operations (\<open>Inl\<close> is a
  rejected promise) and the result of \<^verbatim>\<open>isAvailable()\<close>. The codecs wrap third-party
  libraries, so they are parameters.
\<close>

record CompressionCodec =
  codec_name :: CompressionCodecType
  codec_compress :: "buffer \<Rightarrow> js_error + buffer"
  codec_decompress :: "buffer \<Rightarrow> js_error + buffer"
  codec_isAvailable :: bool

type_synonym CompressionFactory = "CompressionCodecType \<rightharpoonup> CompressionCodec"

definition register :: "CompressionFactory \<Rightarrow> CompressionCodec \<Rightarrow> CompressionFactory" where
  "register f c = (if codec_isAvailable c then f(codec_name c \<mapsto> c) else f)"

definition factory_get :: "CompressionFactory \<Rightarrow> CompressionCodecType \<Rightarrow> CompressionCodec option" where
  "factory_get f name = f name"

record CompressionHandlerConfig =
  cmp_enabled :: bool
  cmp_codec :: CompressionCodecType
  cmp_level :: int
  cmp_minSize :: int
  cmp_minReduction :: rat

record CompressionHandler =
  compression_config :: CompressionHandlerConfig
  compression_factory :: CompressionFactory

text \<open>
  The constructor registers the four codec objects it creates (gzip, snappy, lz4, zstd);
  here they are its arguments.
\<close>

definition new_CompressionHandler ::
  "CompressionHandlerConfig \<Rightarrow> CompressionCodec \<Rightarrow> CompressionCodec \<Rightarrow> CompressionCodec
     \<Rightarrow> CompressionCodec \<Rightarrow> CompressionHandler" where
  "new_CompressionHandler cfg gzip snappy lz4 zstd =
     \<lparr>compression_config = cfg,
      compression_factory = register (register (register (register Map.empty gzip) snappy) lz4) zstd\<rparr>"

definition shouldCompress :: "CompressionHandler \<Rightarrow> int \<Rightarrow> bool" where
  "shouldCompress h sz = (cmp_enabled (compression_config h) \<and> cmp_minSize (compression_config h) \<le> sz)"

record CompressionResult =
  cr_data :: string
  cr_codec :: CompressionCodecType
  cr_originalSize :: int
  cr_compressedSize :: int

text \<open>
  \<^verbatim>\<open>tryCompress\<close>. The reduction is computed in doubles, as
  \<^verbatim>\<open>(1 - compressedSize / originalSize) * 100\<close>; with original size 0 the quotient is
  \<^verbatim>\<open>Infinity\<close> or \<^verbatim>\<open>NaN\<close> and the comparison \<^verbatim>\<open>reduction >= minReduction\<close> is false.
\<close>

definition tryCompress :: "node_runtime \<Rightarrow> CompressionHandler \<Rightarrow> string \<Rightarrow> CompressionResult option" where
  "tryCompress rt h jsonString =
     (if \<not> cmp_enabled (compression_config h) then None
      else (let originalSize = int (byteLength rt jsonString)
            in if originalSize < cmp_minSize (compression_config h) then None
               else (case factory_get (compression_factory h) (cmp_codec (compression_config h)) of
                       None \<Rightarrow> None
                     | Some codec \<Rightarrow>
                         (case codec_compress codec (utf8_encode rt jsonString) of
                            Inl err \<Rightarrow> None
                          | Inr compressed \<Rightarrow>
                              (let compressedSize = int (length compressed);
                                   reduction = reduction_pct originalSize compressedSize
                               in if js_ge reduction (cmp_minReduction (compression_config h))
                                  then Some \<lparr>cr_data = base64_encode rt compressed,
                                             cr_codec = codec_name codec,
                                             cr_originalSize = originalSize,
                                             cr_compressedSize = compressedSize\<rparr>
                                  else None)))))"

text \<open>
  \<^verbatim>\<open>tryDecompress\<close> returns \<^verbatim>\<open>null\<close> for an unknown codec and for anything thrown
  inside its \<^verbatim>\<open>try\<close> block. Its first argument is declared a string, but the
  receive path passes the body of a request as it came, so it is a JSON value here.
\<close>

definition tryDecompress :: "node_runtime \<Rightarrow> CompressionHandler \<Rightarrow> jsvalue \<Rightarrow> CompressionCodecType \<Rightarrow> jsvalue" where
  "tryDecompress rt h data codecName =
     (case factory_get (compression_factory h) codecName of
        None \<Rightarrow> JNull
      | Some codec \<Rightarrow>
          (case buffer_from_base64 rt data of
             None \<Rightarrow> JNull
           | Some compressedBuffer \<Rightarrow>
               (case codec_decompress codec compressedBuffer of
                  Inl err \<Rightarrow> JNull
                | Inr decompressed \<Rightarrow>
                    (case json_parse rt (utf8_decode rt decompressed) of
                       None \<Rightarrow> JNull
                     | Some v \<Rightarrow> v))))"

section \<open>Request tracker (request-tracker.ts)\<close>

text \<open>
  A timer handle, as \<^verbatim>\<open>setTimeout\<close> returns it. The timers that are armed and not yet
  cleared form the set \<open>pending_timers\<close>; \<^verbatim>\<open>clearTimeout\<close> removes a handle from it.
\<close>

type_synonym timer = nat

text \<open>
  How a call of a callback ends: it returns, or it throws. JavaScript throws any value:
  an Error object (its class and message), or any other value, \<open>None\<close> being
  \<^verbatim>\<open>undefined\<close>.
\<close>

datatype thrown = ThrownError js_error | ThrownValue "jsvalue option"

datatype completion = Returned | Threw thrown

fun error_message :: "js_error \<Rightarrow> string" where
  "error_message (Error m) = m"
| "error_message (RangeError m) = m"
| "error_message (TypeError m) = m"
| "error_message (SyntaxError m) = m"

text \<open>
  \<^verbatim>\<open>error.message\<close>, as the \<^verbatim>\<open>catch\<close> block of \<^verbatim>\<open>invokeAndRemove\<close> evaluates it on the
  value it caught. Reading a property of \<^verbatim>\<open>undefined\<close> or \<^verbatim>\<open>null\<close> raises a TypeError;
  an Error object has its message; a plain object (its keys distinct) has the property
  it was given, if any (\<open>None\<close> is \<^verbatim>\<open>undefined\<close>); a boolean, number, string or array has
  no such property.
\<close>

fun message_of_thrown :: "thrown \<Rightarrow> js_error + jsvalue option" where
  "message_of_thrown (ThrownError e) = Inr (Some (JStr (error_message e)))"
| "message_of_thrown (ThrownValue None) =
     Inl (TypeError ''Cannot read properties of undefined (reading 'message')'')"
| "message_of_thrown (ThrownValue (Some JNull)) =
     Inl (TypeError ''Cannot read properties of null (reading 'message')'')"
| "message_of_thrown (ThrownValue (Some (JObj properties))) = Inr (map_of properties ''message'')"
| "message_of_thrown (ThrownValue (Some v)) = Inr None"

text \<open>
  The text that a template literal \<^verbatim>\<open>`${v}`\<close> inserts for a value: \<^verbatim>\<open>String(v)\<close>. An
  array prints its elements separated by commas, \<^verbatim>\<open>null\<close> elements as the empty string;
  a plain object prints as \<^verbatim>\<open>[object Object]\<close>; an integer prints in decimal (as
  JavaScript does below \<open>10^21\<close>).
\<close>

fun js_String :: "jsvalue \<Rightarrow> string"
  and js_join :: "jsvalue list \<Rightarrow> string" where
  "js_String JNull = ''null''"
| "js_String (JBool b) = (if b then ''true'' else ''false'')"
| "js_String (JNum n) = int_toString n"
| "js_String (JStr s) = s"
| "js_String (JArr xs) = js_join xs"
| "js_String (JObj kvs) = ''[object Object]''"
| "js_join [] = []"
| "js_join (x # xs) =
     (if x = JNull then [] else js_String x) @ (if xs = [] then [] else '','' @ js_join xs)"

definition template_text :: "jsvalue option \<Rightarrow> string" where
  "template_text v = (case v of None \<Rightarrow> ''undefined'' | Some x \<Rightarrow> js_String x)"

text \<open>
  \<^verbatim>\<open>ResponseHandler\<close>. A callback is a closure that may read and change the tracker it
  is stored in, so the handler stores a name \<open>'c\<close> for it, and the meaning of the names
  is a parameter \<open>run\<close> of the operations that call one: \<open>run c response w\<close> is how the
  call of \<open>c\<close> on \<open>response\<close> in state \<open>w\<close> ends, and the state it leaves.
\<close>

record 'c ResponseHandler =
  rh_timeoutId :: "timer option"
  rh_callback :: 'c
  rh_ackReceived :: bool
  rh_retryCount :: int
  rh_retryTimer :: "timer option"
  rh_timestamp :: int

text \<open>
  The tracker's configuration and map of handlers, together with what a callback can
  touch from outside it: the armed timers, the logger's output (errors and warnings) and
  the state \<open>app\<close> of the application.
\<close>

record ('c, 'a) RequestTracker =
  requestTimeout :: int
  handlers :: "string \<rightharpoonup> 'c ResponseHandler"
  pending_timers :: "timer set"
  error_log :: "string list"
  warn_log :: "string list"
  app :: 'a

definition clearTimeout :: "('c, 'a) RequestTracker \<Rightarrow> timer \<Rightarrow> ('c, 'a) RequestTracker" where
  "clearTimeout w t = w\<lparr>pending_timers := pending_timers w - {t}\<rparr>"

definition clearRetryTimer :: "('c, 'a) RequestTracker \<Rightarrow> string \<Rightarrow> ('c, 'a) RequestTracker" where
  "clearRetryTimer w messageId =
     (case handlers w messageId of
        None \<Rightarrow> w
      | Some handler \<Rightarrow>
          (case rh_retryTimer handler of
             None \<Rightarrow> w
           | Some t \<Rightarrow>
               (clearTimeout w t)\<lparr>handlers :=
                  (handlers w)(messageId \<mapsto> handler\<lparr>rh_retryTimer := None\<rparr>)\<rparr>))"

text \<open>
  \<^verbatim>\<open>invokeAndRemove\<close>: the retry timer and the timeout timer are cleared and the callback
  is called inside \<^verbatim>\<open>try\<close>. When it throws, the \<^verbatim>\<open>catch\<close> block builds the log line
  from \<^verbatim>\<open>error.message\<close>; when that read itself throws, the TypeError leaves
  \<^verbatim>\<open>invokeAndRemove\<close> (\<open>Inl\<close>) from inside the \<^verbatim>\<open>catch\<close> block, before anything is logged
  and before the statement that deletes the entry. Otherwise the line is logged. After
  the \<^verbatim>\<open>try\<close> statement the entry under \<^verbatim>\<open>messageId\<close> is deleted and the result is
  \<^verbatim>\<open>true\<close>.
\<close>

definition invokeAndRemove ::
  "('c \<Rightarrow> jsvalue \<Rightarrow> ('c, 'a) RequestTracker \<Rightarrow> completion \<times> ('c, 'a) RequestTracker)
     \<Rightarrow> ('c, 'a) RequestTracker \<Rightarrow> string \<Rightarrow> jsvalue
     \<Rightarrow> (js_error + bool) \<times> ('c, 'a) RequestTracker" where
  "invokeAndRemove run w messageId response =
     (case handlers w messageId of
        None \<Rightarrow> (Inr False, w)
      | Some handler \<Rightarrow>
          (let w1 = clearRetryTimer w messageId;
               w2 = (case rh_timeoutId handler of None \<Rightarrow> w1 | Some t \<Rightarrow> clearTimeout w1 t);
               (outcome, w3) = run (rh_callback handler) response w2
           in case outcome of
                Returned \<Rightarrow> (Inr True, w3\<lparr>handlers := (handlers w3)(messageId := None)\<rparr>)
              | Threw error \<Rightarrow>
                  (case message_of_thrown error of
                     Inl type_error \<Rightarrow> (Inl type_error, w3)
                   | Inr message \<Rightarrow>
                       (let w4 = w3\<lparr>error_log := error_log w3 @
                                   [''Callback error for '' @ messageId @ '': ''
                                      @ template_text message]\<rparr>
                        in (Inr True, w4\<lparr>handlers := (handlers w4)(messageId := None)\<rparr>)))))"

definition remove :: "('c, 'a) RequestTracker \<Rightarrow> string \<Rightarrow> bool \<times> ('c, 'a) RequestTracker" where
  "remove w messageId =
     (case handlers w messageId of
        None \<Rightarrow> (False, w)
      | Some handler \<Rightarrow>
          (let w1 = clearRetryTimer w messageId;
               w2 = (case rh_timeoutId handler of None \<Rightarrow> w1 | Some t \<Rightarrow> clearTimeout w1 t)
           in (True, w2\<lparr>handlers := (handlers w2)(messageId := None)\<rparr>)))"

text \<open>
  The function that \<^verbatim>\<open>register(messageId, callback, onTimeout)\<close> hands to
  \<^verbatim>\<open>setTimeout\<close>, run when the request times out: if the request is still tracked, it
  is removed, a warning is logged, and then \<^verbatim>\<open>onTimeout\<close>, if one was given, is called
  with the id (outside any \<^verbatim>\<open>try\<close>). The names of the timeout callbacks are \<open>'t\<close>, their
  meaning the parameter \<open>run_timeout\<close>.
\<close>

definition register_timeout ::
  "('t \<Rightarrow> string \<Rightarrow> ('c, 'a) RequestTracker \<Rightarrow> completion \<times> ('c, 'a) RequestTracker)
     \<Rightarrow> ('c, 'a) RequestTracker \<Rightarrow> string \<Rightarrow> 't option
     \<Rightarrow> completion \<times> ('c, 'a) RequestTracker" where
  "register_timeout run_timeout w messageId onTimeout =
     (if handlers w messageId \<noteq> None
      then (let w1 = snd (remove w messageId);
                w2 = w1\<lparr>warn_log := warn_log w1 @
                          [''Request '' @ messageId @ '' timed out after ''
                             @ int_toString (requestTimeout w1) @ ''ms'']\<rparr>
            in case onTimeout of
                 None \<Rightarrow> (Returned, w2)
               | Some c \<Rightarrow> run_timeout c messageId w2)
      else (Returned, w))"

section \<open>Protocol engine (reliable-udp-socket.ts)\<close>

record SocketConfig =
  maxMessageSize :: int
  maxRetries :: int
  retryInterval :: int
  enableChecksum :: bool

text \<open>
  The engine's configuration and the handlers it owns. The request tracker is left out
  of this record: on the send path every envelope's id is registered with it before the
  envelope is transmitted, and nothing below depends on its content.
\<close>

record ReliableUdpSocket =
  socket_config :: SocketConfig
  idGenerator :: SnowflakeIdGenerator
  compressionHandler :: CompressionHandler
  chunkingHandler :: ChunkingHandler

text \<open>\<^verbatim>\<open>typeof data === 'string' ? data : JSON.stringify(data)\<close>\<close>

definition string_of_body :: "node_runtime \<Rightarrow> jsvalue \<Rightarrow> string" where
  "string_of_body rt data = (case data of JStr s \<Rightarrow> s | _ \<Rightarrow> json_stringify rt data)"

definition calculateChecksum :: "node_runtime \<Rightarrow> jsvalue \<Rightarrow> string" where
  "calculateChecksum rt data = sha256_hex rt (string_of_body rt data)"

text \<open>
  \<^verbatim>\<open>serialize\<close> is \<^verbatim>\<open>JSON.stringify(envelope)\<close>: the properties in the order in which
  \<^verbatim>\<open>createEnvelope\<close> creates them, those whose value is \<^verbatim>\<open>undefined\<close> left out.
\<close>

definition optional_property :: "string \<Rightarrow> 'a option \<Rightarrow> ('a \<Rightarrow> jsvalue) \<Rightarrow> (string \<times> jsvalue) list" where
  "optional_property key v f = (case v of None \<Rightarrow> [] | Some x \<Rightarrow> [(key, f x)])"

definition envelope_to_json :: "MessageEnvelope \<Rightarrow> jsvalue" where
  "envelope_to_json e =
     JObj ([(''id'', JStr (env_id e)), (''body'', env_body e)]
           @ optional_property ''flags'' (env_flags e) JNum
           @ optional_property ''type'' (env_type e) JNum
           @ optional_property ''checksum'' (env_checksum e) JStr
           @ optional_property ''os'' (env_os e) JNum
           @ optional_property ''cs'' (env_cs e) JNum
           @ optional_property ''ci'' (env_ci e) JNum
           @ optional_property ''ct'' (env_ct e) JNum)"

definition serialize :: "node_runtime \<Rightarrow> MessageEnvelope \<Rightarrow> string" where
  "serialize rt e = json_stringify rt (envelope_to_json e)"

subsection \<open>Send path\<close>

text \<open>
  What a send hands to \<^verbatim>\<open>_sendRequestWithRetry\<close>, in order (each envelope is then
  transmitted, and retransmitted unchanged by the retry timer), or the error that the
  \<^verbatim>\<open>catch\<close> of \<^verbatim>\<open>_sendMessageAsync\<close> passes to the caller's callback.
\<close>

datatype send_outcome = Sent "MessageEnvelope list" | SendFailed js_error


definition sendChunkedMessage ::
  "node_runtime \<Rightarrow> ReliableUdpSocket \<Rightarrow> int list \<Rightarrow> jsvalue \<Rightarrow> CompressionResult option
     \<Rightarrow> (send_outcome \<times> ReliableUdpSocket \<times> int list) option" where
  "sendChunkedMessage rt sock clock body compressionResult =
     (case generate (idGenerator sock) clock of
        None \<Rightarrow> None
      | Some (Inl err, g, clock') \<Rightarrow> Some (SendFailed err, sock\<lparr>idGenerator := g\<rparr>, clock')
      | Some (Inr messageId, g, clock') \<Rightarrow>
          (let dataString = string_of_body rt body
           in case createChunks rt (chunking_config (chunkingHandler sock)) (Inl dataString) of
                None \<Rightarrow> None
              | Some chunk_list \<Rightarrow>
                  (let codec = (case compressionResult of None \<Rightarrow> NONE | Some r \<Rightarrow> cr_codec r);
                       isCompressed = (compressionResult \<noteq> None)
                   in Some (Sent (map (\<lambda>i.
                        createEnvelope (messageId @ ''-chunk-'' @ int_toString (int i)) REQ
                          (JStr (chunk_list ! i))
                          \<lparr>opt_checksum = (if enableChecksum (socket_config sock)
                                            then Some (calculateChecksum rt (JStr (chunk_list ! i)))
                                            else None),
                           opt_codec = Some codec,
                           opt_isCompressed = Some (isCompressed \<and> i = 0),
                           opt_isChunked = Some True,
                           opt_chunkIndex = Some (int i),
                           opt_chunkTotal = Some (int (length chunk_list)),
                           opt_originalSize = (if i = 0 then map_option cr_originalSize compressionResult
                                               else None),
                           opt_compressedSize = (if i = 0 then map_option cr_compressedSize compressionResult
                                                 else None)\<rparr>)
                        [0 ..< length chunk_list]),
                      sock\<lparr>idGenerator := g\<rparr>, clock'))))"

text \<open>The locals \<^verbatim>\<open>compressionResult\<close>, \<^verbatim>\<open>bodyToSend\<close> and \<^verbatim>\<open>finalSize\<close> of \<^verbatim>\<open>_sendMessageAsync\<close>.\<close>

definition compressionResult_of :: "node_runtime \<Rightarrow> ReliableUdpSocket \<Rightarrow> jsvalue \<Rightarrow> CompressionResult option" where
  "compressionResult_of rt sock message =
     (let jsonString = json_stringify rt message;
          originalSize = int (byteLength rt jsonString)
      in if shouldCompress (compressionHandler sock) originalSize
         then tryCompress rt (compressionHandler sock) jsonString
         else None)"




subsection \<open>Receive path\<close>

text \<open>
  What the handling of one incoming REQ does, in program order: datagrams handed to
  \<^verbatim>\<open>socket.send\<close> (payload, port, address), values delivered to the application by
  \<^verbatim>\<open>socket.emit('data', ...)\<close>, and the calls into the reassembler and the
  decompressor.
\<close>

datatype event =
    SocketSend string int string
  | SocketEmitData jsvalue RemoteInfo
  | CallInitAssembly string
  | CallAddChunk string int
  | CallTryDecompress CompressionCodecType

fun is_falsy :: "jsvalue \<Rightarrow> bool" where
  "is_falsy JNull = True"
| "is_falsy (JBool b) = (\<not> b)"
| "is_falsy (JNum n) = (n = 0)"
| "is_falsy (JStr s) = (s = [])"
| "is_falsy v = False"

text \<open>\<^verbatim>\<open>UdpSocket.emitMessage\<close>: parse, replace a falsy value by \<^verbatim>\<open>{}\<close>, emit.\<close>

definition emitMessage :: "node_runtime \<Rightarrow> string \<Rightarrow> RemoteInfo \<Rightarrow> js_error + event" where
  "emitMessage rt data info =
     (case json_parse rt data of
        None \<Rightarrow> Inl (Error ''InvalidJSONFormatException'')
      | Some message \<Rightarrow> Inr (SocketEmitData (if is_falsy message then JObj [] else message) info))"

text \<open>\<^verbatim>\<open>id.split('-chunk-')[0]\<close>: the part of the id before the first separator.\<close>

fun before_separator :: "string \<Rightarrow> string \<Rightarrow> string" where
  "before_separator sep [] = []"
| "before_separator sep (c # cs) =
     (if take (length sep) (c # cs) = sep then [] else c # before_separator sep cs)"

definition sendAcknowledgement :: "node_runtime \<Rightarrow> string \<Rightarrow> RemoteInfo \<Rightarrow> event" where
  "sendAcknowledgement rt ident rinfo =
     SocketSend (serialize rt (createEnvelope ident ACK JNull no_options))
       (rinfo_port rinfo) (rinfo_address rinfo)"

text \<open>
  The three handlers return the events, the engine after them, and the error with which
  the returned promise rejects, if any (\<^verbatim>\<open>handleData\<close> logs it).
\<close>

definition handleSingleRequest ::
  "node_runtime \<Rightarrow> ReliableUdpSocket \<Rightarrow> MessageEnvelope \<Rightarrow> RemoteInfo
     \<Rightarrow> event list \<times> ReliableUdpSocket \<times> js_error option" where
  "handleSingleRequest rt sock req rinfo =
     (let flags = decodeFlags (env_flags req);
          (calls, finalBody) =
            (case flags of
               None \<Rightarrow> ([], env_body req)
             | Some f \<Rightarrow>
                 if df_codec f \<noteq> NONE
                 then ([CallTryDecompress (df_codec f)],
                       tryDecompress rt (compressionHandler sock) (env_body req) (df_codec f))
                 else ([], env_body req));
          messageString = json_stringify rt finalBody
      in case emitMessage rt messageString rinfo of
           Inl err \<Rightarrow> (calls, sock, Some err)
         | Inr ev \<Rightarrow> (calls @ [ev], sock, None))"

definition handleChunkedRequest ::
  "node_runtime \<Rightarrow> ReliableUdpSocket \<Rightarrow> int \<Rightarrow> MessageEnvelope \<Rightarrow> int \<Rightarrow> int \<Rightarrow> RemoteInfo
     \<Rightarrow> event list \<times> ReliableUdpSocket \<times> js_error option" where
  "handleChunkedRequest rt sock now req req_ci req_ct rinfo =
     (let baseId = before_separator ''-chunk-'' (env_id req);
          flags = decodeFlags (env_flags req);
          (calls0, created) =
            (if getAssembly (chunkingHandler sock) baseId = None
             then ([CallInitAssembly baseId],
                   initAssembly (chunkingHandler sock) now baseId req_ct (Some rinfo)
                     (map_option df_codec flags))
             else ([], Inr (chunkingHandler sock)))
      in case created of
           Inl err \<Rightarrow> (calls0, sock, Some err)
         | Inr ch1 \<Rightarrow>
             (let (isComplete, ch2) = addChunk ch1 baseId req_ci (env_body req);
                  calls1 = calls0 @ [CallAddChunk baseId req_ci]
              in if isComplete
                 then (case getAssembledData rt ch2 baseId of
                         None \<Rightarrow> (calls1, sock\<lparr>chunkingHandler := ch2\<rparr>, None)
                       | Some assembled \<Rightarrow>
                           (let ch3 = snd (removeAssembly ch2 baseId);
                                finalData = utf8_decode rt (asm_data assembled);
                                (calls2, finalData') =
                                  (case asm_compressionCodec assembled of
                                     None \<Rightarrow> (calls1, finalData)
                                   | Some c \<Rightarrow>
                                       if c \<noteq> NONE
                                       then (calls1 @ [CallTryDecompress c],
                                             json_stringify rt
                                               (tryDecompress rt (compressionHandler sock)
                                                  (JStr finalData) c))
                                       else (calls1, finalData))
                            in case emitMessage rt finalData' rinfo of
                                 Inl err \<Rightarrow> (calls2, sock\<lparr>chunkingHandler := ch3\<rparr>, Some err)
                               | Inr ev \<Rightarrow> (calls2 @ [ev], sock\<lparr>chunkingHandler := ch3\<rparr>, None)))
                 else (calls1, sock\<lparr>chunkingHandler := ch2\<rparr>, None)))"

definition handleRequest ::
  "node_runtime \<Rightarrow> ReliableUdpSocket \<Rightarrow> int \<Rightarrow> MessageEnvelope \<Rightarrow> RemoteInfo
     \<Rightarrow> event list \<times> ReliableUdpSocket \<times> js_error option" where
  "handleRequest rt sock now req rinfo =
     (if enableChecksum (socket_config sock) \<and> truthy_string (env_checksum req)
         \<and> Some (calculateChecksum rt (env_body req)) \<noteq> env_checksum req
      then ([], sock, None)
      else (let ack = sendAcknowledgement rt (env_id req) rinfo;
                (events, sock', err) =
                  (case (env_ci req, env_ct req) of
                     (Some req_ci, Some req_ct) \<Rightarrow>
                       handleChunkedRequest rt sock now req req_ci req_ct rinfo
                   | _ \<Rightarrow> handleSingleRequest rt sock req rinfo)
            in (ack # events, sock', err)))"

text \<open>The ACK envelope for a request id: \<^verbatim>\<open>createEnvelope(id, MessageType.ACK, null)\<close>.\<close>

definition acknowledgement :: "string \<Rightarrow> MessageEnvelope" where
  "acknowledgement ident =
     \<lparr>env_id = ident, env_body = JNull, env_checksum = None, env_flags = Some 32,
      env_type = None, env_ci = None, env_ct = None, env_os = None, env_cs = None\<rparr>"

fun is_SocketSend :: "event \<Rightarrow> bool" where
  "is_SocketSend (SocketSend payload port_no address) = True"
| "is_SocketSend e = False"

section \<open>Concrete objects for examples\<close>

text \<open>
  The theorems below hold for every runtime. To apply them to concrete inputs, this
  section fixes one: strings are taken as their UTF-8 bytes, base64 is the standard
  encoding, JSON text is printed without escapes and read back for scalars only, and
  the digest is a toy stand-in for SHA-256 (the decimal sum of the bytes).
\<close>

definition example_utf8_encode :: "string \<Rightarrow> buffer" where
  "example_utf8_encode s = map (\<lambda>c. of_char c) s"

definition example_utf8_decode :: "buffer \<Rightarrow> string" where
  "example_utf8_decode b = map (\<lambda>w. char_of (unat w)) b"

definition base64_alphabet :: string where
  "base64_alphabet = ''ABCDEFGHIJKLMNOPQRSTUVWXYZabcdefghijklmnopqrstuvwxyz0123456789+/''"

definition sextet_char :: "nat \<Rightarrow> char" where
  "sextet_char n = base64_alphabet ! n"

fun base64_of_bytes :: "nat list \<Rightarrow> string" where
  "base64_of_bytes (a # b # c # rest) =
     [sextet_char (a div 4), sextet_char ((a mod 4) * 16 + b div 16),
      sextet_char ((b mod 16) * 4 + c div 64), sextet_char (c mod 64)] @ base64_of_bytes rest"
| "base64_of_bytes [a, b] =
     [sextet_char (a div 4), sextet_char ((a mod 4) * 16 + b div 16),
      sextet_char ((b mod 16) * 4), CHR ''='']"
| "base64_of_bytes [a] =
     [sextet_char (a div 4), sextet_char ((a mod 4) * 16), CHR ''='', CHR ''='']"
| "base64_of_bytes [] = []"

definition example_base64_encode :: "buffer \<Rightarrow> string" where
  "example_base64_encode b = base64_of_bytes (map unat b)"

definition sextet_value :: "char \<Rightarrow> nat" where
  "sextet_value c = length (takeWhile (\<lambda>x. x \<noteq> c) base64_alphabet)"

fun bytes_of_base64 :: "string \<Rightarrow> nat list" where
  "bytes_of_base64 (c1 # c2 # c3 # c4 # rest) =
     (let v1 = sextet_value c1; v2 = sextet_value c2; v3 = sextet_value c3; v4 = sextet_value c4
      in if c3 = CHR ''='' then [v1 * 4 + v2 div 16]
         else if c4 = CHR ''='' then [v1 * 4 + v2 div 16, (v2 mod 16) * 16 + v3 div 4]
         else [v1 * 4 + v2 div 16, (v2 mod 16) * 16 + v3 div 4, (v3 mod 4) * 64 + v4]
              @ bytes_of_base64 rest)"
| "bytes_of_base64 s = []"

definition example_base64_decode :: "string \<Rightarrow> buffer" where
  "example_base64_decode s = map of_nat (bytes_of_base64 s)"

fun example_stringify :: "jsvalue \<Rightarrow> string"
  and example_stringify_elements :: "jsvalue list \<Rightarrow> string"
  and example_stringify_members :: "(string \<times> jsvalue) list \<Rightarrow> string" where
  "example_stringify JNull = ''null''"
| "example_stringify (JBool b) = (if b then ''true'' else ''false'')"
| "example_stringify (JNum n) = int_toString n"
| "example_stringify (JStr s) = [CHR 0x22] @ s @ [CHR 0x22]"
| "example_stringify (JArr xs) = ''['' @ example_stringify_elements xs @ '']''"
| "example_stringify (JObj kvs) = ''{'' @ example_stringify_members kvs @ ''}''"
| "example_stringify_elements [] = []"
| "example_stringify_elements (x # xs) =
     example_stringify x @ (if xs = [] then [] else '','' @ example_stringify_elements xs)"
| "example_stringify_members [] = []"
| "example_stringify_members ((k, v) # kvs) =
     [CHR 0x22] @ k @ [CHR 0x22] @ '':'' @ example_stringify v
       @ (if kvs = [] then [] else '','' @ example_stringify_members kvs)"

definition example_parse :: "string \<Rightarrow> jsvalue option" where
  "example_parse s =
     (if s = ''null'' then Some JNull
      else if s = ''true'' then Some (JBool True)
      else if s = ''false'' then Some (JBool False)
      else (case s of
              [] \<Rightarrow> None
            | c # cs \<Rightarrow>
                if c = CHR 0x22
                then (if cs \<noteq> [] \<and> last cs = CHR 0x22 \<and> CHR 0x22 \<notin> set (butlast cs)
                      then Some (JStr (butlast cs)) else None)
                else if c = CHR ''+'' then None
                else map_option JNum (bigint_of_string s)))"

definition example_digest :: "string \<Rightarrow> string" where
  "example_digest s = int_toString (sum_list (map of_char s))"

definition example_runtime :: node_runtime where
  "example_runtime =
     \<lparr>utf8_encode = example_utf8_encode, utf8_decode = example_utf8_decode,
      base64_encode = example_base64_encode, base64_decode = example_base64_decode,
      buffer_from_object = (\<lambda>v. None),
      json_stringify = example_stringify, json_parse = example_parse,
      sha256_hex = example_digest\<rparr>"

text \<open>A toy run-length codec, registered under the name GZIP.\<close>

function run_length_encode :: "buffer \<Rightarrow> buffer" where
  "run_length_encode [] = []"
| "run_length_encode (x # xs) =
     of_nat (Suc (length (takeWhile (\<lambda>y. y = x) xs))) # x
       # run_length_encode (dropWhile (\<lambda>y. y = x) xs)"
  by pat_completeness auto
termination
  by (relation "measure length") (auto simp: length_dropWhile_le le_imp_less_Suc)

fun run_length_decode :: "buffer \<Rightarrow> js_error + buffer" where
  "run_length_decode [] = Inr []"
| "run_length_decode [n] = Inl (Error ''truncated input'')"
| "run_length_decode (n # x # rest) =
     (case run_length_decode rest of
        Inl err \<Rightarrow> Inl err
      | Inr out \<Rightarrow> Inr (replicate (unat n) x @ out))"

definition example_codec :: CompressionCodec where
  "example_codec = \<lparr>codec_name = GZIP,
      codec_compress = (\<lambda>b. Inr (run_length_encode b)),
      codec_decompress = run_length_decode,
      codec_isAvailable = True\<rparr>"

definition unavailable_codec :: "CompressionCodecType \<Rightarrow> CompressionCodec" where
  "unavailable_codec name = \<lparr>codec_name = name,
      codec_compress = (\<lambda>b. Inl (Error ''CodecNotAvailableException'')),
      codec_decompress = (\<lambda>b. Inl (Error ''CodecNotAvailableException'')),
      codec_isAvailable = False\<rparr>"

definition example_compression :: CompressionHandler where
  "example_compression =
     new_CompressionHandler
       \<lparr>cmp_enabled = True, cmp_codec = GZIP, cmp_level = 6, cmp_minSize = 8, cmp_minReduction = 10\<rparr>
       example_codec (unavailable_codec SNAPPY) (unavailable_codec LZ4) (unavailable_codec ZSTD)"

definition example_generator :: SnowflakeIdGenerator where
  "example_generator = \<lparr>sf_config = \<lparr>workerId = 3, epoch = SNOWFLAKE_DEFAULT_EPOCH\<rparr>,
      sf_sequence = 0, sf_lastTimestamp = - 1\<rparr>"

definition example_chunking :: ChunkingHandler where
  "example_chunking =
     \<lparr>chunking_config = \<lparr>chunkSize = 4, reassemblyTimeout = 30000\<rparr>, assemblies = Map.empty\<rparr>"

text \<open>The reassembler after \<^verbatim>\<open>initAssembly('m', n, undefined, GZIP)\<close> and a sequence of \<^verbatim>\<open>addChunk\<close> calls.\<close>

definition example_assembly :: "int \<Rightarrow> (int \<times> jsvalue) list \<Rightarrow> ChunkingHandler" where
  "example_assembly n calls =
     (case initAssembly example_chunking 0 ''m'' n None (Some GZIP) of
        Inl err \<Rightarrow> example_chunking
      | Inr h \<Rightarrow> addChunks h ''m'' calls)"

definition example_socket :: ReliableUdpSocket where
  "example_socket =
     \<lparr>socket_config = \<lparr>maxMessageSize = 1400, maxRetries = 5, retryInterval = 500,
                        enableChecksum = True\<rparr>,
      idGenerator = example_generator,
      compressionHandler = example_compression,
      chunkingHandler = example_chunking\<rparr>"






definition example_rinfo :: RemoteInfo where
  "example_rinfo = \<lparr>rinfo_address = ''127.0.0.1'', rinfo_family = ''IPv4'',
      rinfo_port = 41234, rinfo_size = 64\<rparr>"

text \<open>
  A tracker with one outstanding request. Its callback records, in the application
  state, whether it finds the request's own entry in the map, and then returns, throws
  an Error object, or throws \<^verbatim>\<open>null\<close>. The timeout callback records the same and returns.
\<close>

datatype probe = ProbeReturns | ProbeThrowsError | ProbeThrowsNull

definition probe_run ::
  "probe \<Rightarrow> jsvalue \<Rightarrow> (probe, bool option) RequestTracker
     \<Rightarrow> completion \<times> (probe, bool option) RequestTracker" where
  "probe_run c response w =
     (case c of
        ProbeReturns \<Rightarrow> Returned
      | ProbeThrowsError \<Rightarrow> Threw (ThrownError (Error ''Callback error''))
      | ProbeThrowsNull \<Rightarrow> Threw (ThrownValue (Some JNull)),
      w\<lparr>app := Some (handlers w ''req-1'' \<noteq> None)\<rparr>)"

definition probe_timeout ::
  "unit \<Rightarrow> string \<Rightarrow> (probe, bool option) RequestTracker
     \<Rightarrow> completion \<times> (probe, bool option) RequestTracker" where
  "probe_timeout c messageId w = (Returned, w\<lparr>app := Some (handlers w messageId \<noteq> None)\<rparr>)"

definition example_handler :: "probe \<Rightarrow> probe ResponseHandler" where
  "example_handler c = \<lparr>rh_timeoutId = Some 1, rh_callback = c, rh_ackReceived = False,
      rh_retryCount = 0, rh_retryTimer = Some 2, rh_timestamp = 0\<rparr>"

definition example_tracker :: "probe \<Rightarrow> (probe, bool option) RequestTracker" where
  "example_tracker c = \<lparr>requestTimeout = 5000, handlers = [''req-1'' \<mapsto> example_handler c],
      pending_timers = {1, 2}, error_log = [], warn_log = [], app = None\<rparr>"

text \<open>A single REQ with body \<^verbatim>\<open>"hello"\<close>, whose digest in the example runtime is 532.\<close>

definition example_request :: "string option \<Rightarrow> MessageEnvelope" where
  "example_request checksum =
     \<lparr>env_id = ''7'', env_body = JStr ''hello'', env_checksum = checksum, env_flags = Some 0,
      env_type = None, env_ci = None, env_ct = None, env_os = None, env_cs = None\<rparr>"

text \<open>A chunk REQ (chunk 0 of 1) whose body is \<^verbatim>\<open>null\<close>.\<close>

definition null_chunk_request :: MessageEnvelope where
  "null_chunk_request =
     \<lparr>env_id = ''m-chunk-0'', env_body = JNull, env_checksum = None, env_flags = Some 16,
      env_type = None, env_ci = Some 0, env_ct = Some 1, env_os = None, env_cs = None\<rparr>"

text \<open>What the example codec makes of the JSON text of a string of four runs of ten letters.\<close>

definition example_compressed :: CompressionResult where
  "example_compressed = \<lparr>cr_data = ''ASIKYQpiCmMKZAEi'', cr_codec = GZIP,
      cr_originalSize = 42, cr_compressedSize = 12\<rparr>"

section \<open>Properties of the envelope codec\<close>

lemma encodeFlags_value:
  "encodeFlags (MessageType_value t) (CodecNumber (CompressionCodecType_value c)) a b =
     CompressionCodecType_value c + (if a then 8 else 0) + (if b then 16 else 0)
       + 32 * MessageType_value t"
  by (cases t; cases c; cases a; cases b)
     (simp_all add: encodeFlags_def js_or_def js_shl_def to_int32_def
        COMPRESSED_def CHUNKED_def TYPE_SHIFT_def)

lemma decodeFlags_of_encodeFlags:
  "decodeFlags (Some (encodeFlags (MessageType_value t)
       (CodecNumber (CompressionCodecType_value c)) a b)) =
     Some \<lparr>df_type = MessageType_value t, df_codec = c, df_isCompressed = a, df_isChunked = b\<rparr>"
  by (cases t; cases c; cases a; cases b)
     (simp_all add: encodeFlags_def decodeFlags_def js_or_def js_and_def js_shl_def
        js_sar_def to_int32_def INDEX_TO_CODEC_def CODEC_MASK_def COMPRESSED_def
        CHUNKED_def TYPE_MASK_def TYPE_SHIFT_def)

text \<open>
  C2. For every message type in REQ, ACK, RES, every codec in NONE, GZIP, SNAPPY, LZ4,
  ZSTD and every pair of booleans, decoding the encoded flag byte gives back the type
  (as its number), the codec and the two booleans.
\<close>

theorem decodeFlags_encodeFlags:
  "decodeFlags (Some (encodeFlags (MessageType_value t)
       (CodecNumber (CompressionCodecType_value c)) isCompressed isChunked)) =
     Some \<lparr>df_type = MessageType_value t, df_codec = c,
           df_isCompressed = isCompressed, df_isChunked = isChunked\<rparr>"
  by (rule decodeFlags_of_encodeFlags)

section \<open>Properties of the reassembler\<close>

lemma array_get_out: "i < 0 \<or> int (length xs) \<le> i \<Longrightarrow> array_get xs i = None"
  by (auto simp: array_get_def)

text \<open>
  C10. In an assembly whose slot array has \<open>totalChunks\<close> entries, \<^verbatim>\<open>addChunk\<close> with an
  index below 0 or from \<open>totalChunks\<close> on changes nothing and returns whether
  \<open>receivedCount\<close> equals \<open>totalChunks\<close>.
\<close>

theorem addChunk_out_of_range:
  assumes "assemblies h messageId = Some a"
    and "int (length (chunks a)) = totalChunks a"
    and "i < 0 \<or> totalChunks a \<le> i"
  shows "addChunk h messageId i d = (receivedCount a = totalChunks a, h)"
  using assms by (simp add: addChunk_def array_get_out)

theorem addChunk_out_of_range_witness:
  "addChunk (example_assembly 2 [(0, JStr ''dGVz'')]) ''m'' 2 (JStr ''dA=='') =
     (False, example_assembly 2 [(0, JStr ''dGVz'')])
   \<and> addChunk (example_assembly 2 [(0, JStr ''dGVz'')]) ''m'' (- 1) (JStr ''dA=='') =
     (False, example_assembly 2 [(0, JStr ''dGVz'')])"
proof -
  let ?h = "example_assembly 2 [(0, JStr ''dGVz'')]"
  let ?a = "\<lparr>chunks = [JStr ''dGVz'', JNull], totalChunks = 2, receivedCount = 1,
             acksReceived = [], timestamp = 0, remoteInfo = None,
             compressionCodec = Some GZIP\<rparr>"
  have a: "assemblies ?h ''m'' = Some ?a"
    by (simp add: example_assembly_def example_chunking_def initAssembly_def addChunk_def
        array_get_def numeral_2_eq_2)
  have len: "int (length (chunks ?a)) = totalChunks ?a" by simp
  from addChunk_out_of_range [OF a len, of 2 "JStr ''dA==''"]
       addChunk_out_of_range [OF a len, of "- 1" "JStr ''dA==''"]
  show ?thesis by simp
qed

text \<open>
  Supporting facts for C5. A second \<^verbatim>\<open>addChunk\<close> at an index whose slot holds a value
  other than \<^verbatim>\<open>null\<close> changes nothing; and as long as no chunk's data is \<^verbatim>\<open>null\<close>,
  \<open>receivedCount\<close> counts the filled slots, so it never exceeds \<open>totalChunks\<close>.
\<close>

lemma addChunk_duplicate:
  assumes "assemblies h messageId = Some a"
    and "array_get (chunks a) i = Some v" and "v \<noteq> JNull"
  shows "addChunk h messageId i d = (receivedCount a = totalChunks a, h)"
  using assms by (simp add: addChunk_def)

lemma filter_update_count:
  assumes "i < length xs" "xs ! i = JNull" "d \<noteq> JNull"
  shows "length (filter (\<lambda>c. c \<noteq> JNull) (xs[i := d])) = Suc (length (filter (\<lambda>c. c \<noteq> JNull) xs))"
  using assms
proof (induction xs arbitrary: i)
  case Nil
  then show ?case by simp
next
  case (Cons x xs)
  then show ?case by (cases i) auto
qed

lemma addChunk_inv:
  assumes "assemblies h m = Some a" "assembly_inv a" "d \<noteq> JNull"
  shows "\<exists>a'. assemblies (snd (addChunk h m i d)) m = Some a' \<and> assembly_inv a'"
  using assms
  by (auto simp: addChunk_def assembly_inv_def array_get_def filter_update_count nat_less_iff
      split: if_splits)

lemma addChunks_inv:
  assumes "assemblies h m = Some a" "assembly_inv a" "\<forall>(i, d) \<in> set calls. d \<noteq> JNull"
  shows "\<exists>a'. assemblies (addChunks h m calls) m = Some a' \<and> assembly_inv a'"
  using assms
proof (induction calls arbitrary: h a)
  case Nil
  then show ?case by simp
next
  case (Cons c calls)
  obtain i d where c: "c = (i, d)" by (cases c)
  with Cons.prems have "d \<noteq> JNull" by simp
  from addChunk_inv[OF Cons.prems(1,2) this, of i]
  obtain a' where "assemblies (snd (addChunk h m i d)) m = Some a'" "assembly_inv a'" by blast
  from Cons.IH[OF this] Cons.prems(3) c show ?case by simp
qed

lemma assembly_inv_bound: "assembly_inv a \<Longrightarrow> receivedCount a \<le> totalChunks a"
  unfolding assembly_inv_def
  by (metis length_filter_le of_nat_le_iff)

lemma initAssembly_inv:
  "initAssembly h now m n r c = Inr h' \<Longrightarrow> \<exists>a. assemblies h' m = Some a \<and> assembly_inv a"
  by (auto simp: initAssembly_def assembly_inv_def split: if_splits)

lemma addChunks_receivedCount_bound:
  assumes "initAssembly h0 now m n r c = Inr h"
    and "\<forall>(i, d) \<in> set calls. d \<noteq> JNull"
  shows "\<exists>a. assemblies (addChunks h m calls) m = Some a \<and> receivedCount a \<le> totalChunks a"
proof -
  from initAssembly_inv [OF assms(1)] obtain a where "assemblies h m = Some a" "assembly_inv a"
    by blast
  from addChunks_inv [OF this assms(2)] show ?thesis
    using assembly_inv_bound by blast
qed

text \<open>
  C5. A second \<^verbatim>\<open>addChunk\<close> at an index that already received a chunk should change
  nothing, and \<open>receivedCount\<close> should never exceed \<open>totalChunks\<close>. The code breaks both
  where a chunk's data is \<^verbatim>\<open>null\<close>, the value that marks an empty slot: after
  \<^verbatim>\<open>initAssembly('m', 1)\<close>, two calls \<^verbatim>\<open>addChunk('m', 0, null)\<close> are both taken as a
  first arrival, and \<open>receivedCount\<close> is 2 for a total of 1.
\<close>

theorem addChunk_null_data_counted_twice:
  "map_option (\<lambda>a. (receivedCount a, totalChunks a, chunks a))
     (assemblies (example_assembly 1 [(0, JNull), (0, JNull)]) ''m'') = Some (2, 1, [JNull])"
  by (simp add: example_assembly_def example_chunking_def initAssembly_def addChunk_def
      array_get_def)

text \<open>The same through the receive path: the chunk REQ with a \<^verbatim>\<open>null\<close> body, received twice.\<close>

lemma handleRequest_null_chunk_twice:
  "map_option (\<lambda>a. (receivedCount a, totalChunks a, chunks a))
     (assemblies (chunkingHandler
        (fst (snd (handleRequest example_runtime
           (fst (snd (handleRequest example_runtime example_socket 0 null_chunk_request example_rinfo)))
           1 null_chunk_request example_rinfo)))) ''m'') = Some (2, 1, [JNull])"
  by code_simp

lemma those_map_None_iff: "(those (map f xs) = None) = (\<exists>x\<in>set xs. f x = None)"
  by (induction xs) (auto split: option.splits)

lemma those_map_the: "those (map f xs) = Some ys \<Longrightarrow> ys = map (\<lambda>x. the (f x)) xs"
  by (induction xs arbitrary: ys) (auto split: option.splits)

text \<open>
  C6, as stated (a result is returned if and only if \<open>receivedCount\<close> equals
  \<open>totalChunks\<close> and no slot is empty), fails: an assembly whose only slot holds the
  number 5 is complete and has no empty slot, but \<^verbatim>\<open>Buffer.from(5, 'base64')\<close> throws inside the \<^verbatim>\<open>try\<close> block
  and \<^verbatim>\<open>getAssembledData\<close> returns \<^verbatim>\<open>null\<close>.
\<close>

theorem getAssembledData_number_slot_counterexample:
  "map_option (\<lambda>a. (receivedCount a, totalChunks a, chunks a))
     (assemblies (example_assembly 1 [(0, JNum 5)]) ''m'') = Some (1, 1, [JNum 5])
   \<and> getAssembledData example_runtime (example_assembly 1 [(0, JNum 5)]) ''m'' = None"
  by (simp add: example_assembly_def example_chunking_def initAssembly_def addChunk_def
      array_get_def getAssembledData_def)

text \<open>
  C6, amended. For every assembly, \<^verbatim>\<open>getAssembledData\<close> returns a result if and only if
  \<open>receivedCount\<close> equals \<open>totalChunks\<close>, no slot is empty, and \<^verbatim>\<open>Buffer.from(slot, 'base64')\<close>
  succeeds on every slot (as it does on every string). The result then holds the
  concatenation of the decoded slots in index order and the codec recorded on the
  assembly.
\<close>

theorem getAssembledData_iff:
  assumes "assemblies h messageId = Some a"
  shows "(getAssembledData rt h messageId \<noteq> None) =
           (receivedCount a = totalChunks a \<and> (\<forall>c\<in>set (chunks a). c \<noteq> JNull)
            \<and> (\<forall>c\<in>set (chunks a). buffer_from_base64 rt c \<noteq> None))
         \<and> (\<forall>r. getAssembledData rt h messageId = Some r \<longrightarrow>
              asm_data r = concat (map (\<lambda>c. the (buffer_from_base64 rt c)) (chunks a))
              \<and> asm_compressionCodec r = compressionCodec a)"
proof (intro conjI allI impI)
  show "(getAssembledData rt h messageId \<noteq> None) =
           (receivedCount a = totalChunks a \<and> (\<forall>c\<in>set (chunks a). c \<noteq> JNull)
            \<and> (\<forall>c\<in>set (chunks a). buffer_from_base64 rt c \<noteq> None))"
  proof (cases "those (map (buffer_from_base64 rt) (chunks a))")
    case None
    then have "\<exists>c\<in>set (chunks a). buffer_from_base64 rt c = None"
      by (simp add: those_map_None_iff)
    with None assms show ?thesis
      by (auto simp: getAssembledData_def)
  next
    case (Some bs)
    then have "\<forall>c\<in>set (chunks a). buffer_from_base64 rt c \<noteq> None"
      using those_map_None_iff[of "buffer_from_base64 rt" "chunks a"] by auto
    with Some assms show ?thesis
      by (auto simp: getAssembledData_def list_ex_iff)
  qed
next
  fix r
  assume r: "getAssembledData rt h messageId = Some r"
  with assms obtain bs where bs: "those (map (buffer_from_base64 rt) (chunks a)) = Some bs"
    and r_eq: "r = \<lparr>asm_data = concat bs, asm_compressionCodec = compressionCodec a\<rparr>"
    by (auto simp: getAssembledData_def split: if_splits option.splits)
  from those_map_the[OF bs] r_eq
  show "asm_data r = concat (map (\<lambda>c. the (buffer_from_base64 rt c)) (chunks a))" by simp
  from r_eq show "asm_compressionCodec r = compressionCodec a" by simp
qed

theorem getAssembledData_iff_witness:
  "getAssembledData example_runtime
     (example_assembly 2 [(1, JStr ''dA==''), (0, JStr ''dGVz'')]) ''m'' =
   Some \<lparr>asm_data = [116, 101, 115, 116], asm_compressionCodec = Some GZIP\<rparr>"
proof -
  let ?h = "example_assembly 2 [(1, JStr ''dA==''), (0, JStr ''dGVz'')]"
  let ?a = "\<lparr>chunks = [JStr ''dGVz'', JStr ''dA==''], totalChunks = 2, receivedCount = 2,
             acksReceived = [], timestamp = 0, remoteInfo = None,
             compressionCodec = Some GZIP\<rparr>"
  have a: "assemblies ?h ''m'' = Some ?a"
    by (simp add: example_assembly_def example_chunking_def initAssembly_def addChunk_def
        array_get_def numeral_2_eq_2)
  have dec: "base64_decode example_runtime ''dGVz'' = [116, 101, 115]"
    "base64_decode example_runtime ''dA=='' = [116]"
    by (simp_all add: example_runtime_def example_base64_decode_def sextet_value_def
        base64_alphabet_def)
  from getAssembledData_iff [OF a, of example_runtime]
  obtain r where r: "getAssembledData example_runtime ?h ''m'' = Some r" by auto
  with getAssembledData_iff [OF a, of example_runtime]
  have "asm_data r = [116, 101, 115, 116]" "asm_compressionCodec r = Some GZIP"
    by (simp_all add: dec)
  with r show ?thesis by (cases r) simp
qed

section \<open>Properties of the identifier generator\<close>

lemma digit_value_digit_char: "0 \<le> d \<Longrightarrow> d < 10 \<Longrightarrow> digit_value (digit_char d) = Some d"
  by (simp add: digit_value_def digit_char_def)

lemma parse_digits_from_append:
  "parse_digits_from acc (xs @ ys) =
     (case parse_digits_from acc xs of None \<Rightarrow> None | Some a \<Rightarrow> parse_digits_from a ys)"
  by (induction xs arbitrary: acc) (auto split: option.splits)

lemma parse_dec_digits: "0 \<le> n \<Longrightarrow> parse_digits_from 0 (dec_digits n) = Some n"
proof (induction n rule: dec_digits.induct)
  case (1 n)
  show ?case
  proof (cases "n < 10")
    case True
    with 1 show ?thesis by (simp add: dec_digits.simps[of n] digit_value_digit_char)
  next
    case False
    with 1 have "parse_digits_from 0 (dec_digits (n div 10)) = Some (n div 10)" by simp
    with False 1(2) show ?thesis
      by (simp add: dec_digits.simps[of n] parse_digits_from_append digit_value_digit_char)
  qed
qed

lemma dec_digits_nonempty: "dec_digits n \<noteq> []"
  by (simp add: dec_digits.simps[of n])

lemma hd_dec_digits: "0 \<le> n \<Longrightarrow> \<exists>d. 0 \<le> d \<and> d < 10 \<and> hd (dec_digits n) = digit_char d"
proof (induction n rule: dec_digits.induct)
  case (1 n)
  show ?case
  proof (cases "n < 10")
    case True
    with 1 show ?thesis by (auto simp: dec_digits.simps[of n])
  next
    case False
    with 1 show ?thesis
      by (simp add: dec_digits.simps[of n] dec_digits_nonempty)
  qed
qed

lemma digit_char_not_sign:
  assumes "0 \<le> d" "d < 10"
  shows "digit_char d \<noteq> CHR ''-'' \<and> digit_char d \<noteq> CHR ''+''"
proof -
  have "digit_value (digit_char d) = Some d" using assms by (rule digit_value_digit_char)
  moreover have "digit_value CHR ''-'' = None" "digit_value CHR ''+'' = None"
    by (simp_all add: digit_value_def)
  ultimately show ?thesis by auto
qed

lemma bigint_of_dec_digits: "0 \<le> n \<Longrightarrow> bigint_of_string (dec_digits n) = Some n"
proof -
  assume n: "0 \<le> n"
  obtain c cs where s: "dec_digits n = c # cs"
    using dec_digits_nonempty[of n] by (cases "dec_digits n") auto
  from hd_dec_digits[OF n] s obtain d where "0 \<le> d" "d < 10" "c = digit_char d" by auto
  then have "c \<noteq> CHR ''-''" "c \<noteq> CHR ''+''" using digit_char_not_sign by auto
  then show ?thesis
    using parse_dec_digits[OF n] by (simp add: bigint_of_string_def s)
qed

lemma bigint_of_string_toString: "bigint_of_string (int_toString x) = Some x"
proof (cases "x < 0")
  case True
  then show ?thesis
    by (simp add: int_toString_def bigint_of_string_def dec_digits_nonempty parse_dec_digits)
next
  case False
  then show ?thesis
    by (simp add: int_toString_def bigint_of_dec_digits)
qed


lemma number_of_bigint_small: "\<bar>x\<bar> < 2 ^ 53 \<Longrightarrow> number_of_bigint x = x"
  by (simp add: number_of_bigint_def)

lemma unpack_sequence:
  assumes "0 \<le> s" "s < 2 ^ 12"
  shows "(push_bit 22 d OR push_bit 12 w OR s) AND (4095 :: int) = s"
proof -
  have s: "take_bit 12 s = s" using assms by (simp add: take_bit_int_eq_self)
  have m: "(4095 :: int) = mask 12" by (simp add: mask_eq_exp_minus_1)
  have "(push_bit 22 d OR push_bit 12 w OR take_bit 12 s) AND mask 12 = take_bit 12 s"
    by (rule bit_eqI) (auto simp: bit_simps)
  then show ?thesis by (simp add: s m)
qed

lemma unpack_workerId:
  assumes "0 \<le> w" "w < 2 ^ 10" "0 \<le> s" "s < 2 ^ 12"
  shows "drop_bit 12 (push_bit 22 d OR push_bit 12 w OR s) AND (1023 :: int) = w"
proof -
  have s: "take_bit 12 s = s" using assms by (simp add: take_bit_int_eq_self)
  have w: "take_bit 10 w = w" using assms by (simp add: take_bit_int_eq_self)
  have m: "(1023 :: int) = mask 10" by (simp add: mask_eq_exp_minus_1)
  have "drop_bit 12 (push_bit 22 d OR push_bit 12 (take_bit 10 w) OR take_bit 12 s) AND mask 10
          = take_bit 10 w"
    by (rule bit_eqI) (auto simp: bit_simps)
  then show ?thesis by (simp add: s w m)
qed

lemma unpack_timestamp:
  assumes "0 \<le> w" "w < 2 ^ 10" "0 \<le> s" "s < 2 ^ 12"
  shows "drop_bit 22 (push_bit 22 d OR push_bit 12 w OR s) = (d :: int)"
proof -
  have s: "take_bit 12 s = s" using assms by (simp add: take_bit_int_eq_self)
  have w: "take_bit 10 w = w" using assms by (simp add: take_bit_int_eq_self)
  have "drop_bit 22 (push_bit 22 d OR push_bit 12 (take_bit 10 w) OR take_bit 12 s) = d"
    by (rule bit_eqI) (auto simp: bit_simps)
  then show ?thesis by (simp add: s w)
qed

lemma compose_id_sequence:
  assumes "0 \<le> s" "s < 2 ^ 12"
  shows "compose_id e ts w s AND SNOWFLAKE_MAX_SEQUENCE = s"
  using unpack_sequence[OF assms]
  by (simp add: compose_id_def SNOWFLAKE_TIMESTAMP_SHIFT_def SNOWFLAKE_WORKER_ID_SHIFT_def
      SNOWFLAKE_WORKER_ID_BITS_def SNOWFLAKE_SEQUENCE_BITS_def SNOWFLAKE_MAX_SEQUENCE_def)

lemma compose_id_workerId:
  assumes "0 \<le> w" "w < 2 ^ 10" "0 \<le> s" "s < 2 ^ 12"
  shows "drop_bit SNOWFLAKE_WORKER_ID_SHIFT (compose_id e ts w s) AND SNOWFLAKE_MAX_WORKER_ID = w"
  using unpack_workerId[OF assms]
  by (simp only: compose_id_def SNOWFLAKE_TIMESTAMP_SHIFT_def SNOWFLAKE_WORKER_ID_SHIFT_def
      SNOWFLAKE_WORKER_ID_BITS_def SNOWFLAKE_SEQUENCE_BITS_def SNOWFLAKE_MAX_WORKER_ID_def) simp

lemma compose_id_timestamp:
  assumes "0 \<le> w" "w < 2 ^ 10" "0 \<le> s" "s < 2 ^ 12"
  shows "drop_bit SNOWFLAKE_TIMESTAMP_SHIFT (compose_id e ts w s) = ts - e"
  using unpack_timestamp[OF assms]
  by (simp only: compose_id_def SNOWFLAKE_TIMESTAMP_SHIFT_def SNOWFLAKE_WORKER_ID_SHIFT_def
      SNOWFLAKE_WORKER_ID_BITS_def SNOWFLAKE_SEQUENCE_BITS_def) simp

text \<open>
  C8. For every millisecond clock reading \<open>ts\<close> (a JavaScript number, so
  \<^verbatim>\<open>Number(BigInt(ts))\<close> is \<open>ts\<close>) with \<open>0 \<le> ts - epoch < 2^41\<close>, every worker id from 0
  to 1023 and every sequence number from 0 to 4095, \<^verbatim>\<open>parse\<close> applied to the decimal
  string of the packed value returns the three components.
\<close>

theorem parse_id_compose_id:
  assumes "0 \<le> ts - epoch (sf_config g)" and "ts - epoch (sf_config g) < 2 ^ 41"
    and "0 \<le> w" and "w \<le> 1023" and "0 \<le> s" and "s \<le> 4095"
    and "number_of_bigint ts = ts"
  shows "parse_id g (int_toString (compose_id (epoch (sf_config g)) ts w s)) =
           Inr \<lparr>p_timestamp = ts, p_workerId = w, p_sequence = s\<rparr>"
proof -
  have w: "w < 2 ^ 10" and s: "s < 2 ^ 12" using assms by simp_all
  have n: "number_of_bigint w = w" "number_of_bigint s = s"
    using assms by (simp_all add: number_of_bigint_small)
  show ?thesis
    by (simp add: parse_id_def bigint_of_string_toString
        compose_id_sequence[OF assms(5) s] compose_id_workerId[OF assms(3) w assms(5) s]
        compose_id_timestamp[OF assms(3) w assms(5) s] n assms(7))
qed

theorem parse_id_compose_id_witness:
  "parse_id example_generator (int_toString (compose_id SNOWFLAKE_DEFAULT_EPOCH 1762128000000 3 7)) =
     Inr \<lparr>p_timestamp = 1762128000000, p_workerId = 3, p_sequence = 7\<rparr>"
  using parse_id_compose_id[of 1762128000000 example_generator 3 7]
  by (simp add: example_generator_def SNOWFLAKE_DEFAULT_EPOCH_def number_of_bigint_def)

text \<open>
  The same for an id that \<^verbatim>\<open>generate\<close> returned: \<^verbatim>\<open>parse\<close> gives back the timestamp,
  the worker id and the sequence number that the generator used.
\<close>

lemma and_max_sequence_range:
  "0 \<le> x AND SNOWFLAKE_MAX_SEQUENCE \<and> x AND SNOWFLAKE_MAX_SEQUENCE < 2 ^ 12"
proof -
  have m: "SNOWFLAKE_MAX_SEQUENCE = 4095"
    by (simp add: SNOWFLAKE_MAX_SEQUENCE_def SNOWFLAKE_SEQUENCE_BITS_def)
  have "0 \<le> x AND (4095 :: int)" by simp
  moreover have "x AND (4095 :: int) \<le> 4095" by (rule AND_upper2) simp
  ultimately show ?thesis by (simp add: m)
qed

lemma generate_result:
  assumes "generate g clock = Some (Inr ident, g', clock')"
  shows "ident = int_toString (compose_id (epoch (sf_config g)) (sf_lastTimestamp g')
                   (workerId (sf_config g)) (sf_sequence g'))
         \<and> sf_config g' = sf_config g
         \<and> 0 \<le> sf_sequence g' \<and> sf_sequence g' < 2 ^ 12"
  using assms and_max_sequence_range [of "sf_sequence g + 1"]
  by (auto simp: generate_def Let_def split: list.splits if_splits option.splits prod.splits)

lemma parse_id_generate:
  assumes "generate g clock = Some (Inr ident, g', clock')"
    and "0 \<le> workerId (sf_config g)" and "workerId (sf_config g) \<le> 1023"
    and "number_of_bigint (sf_lastTimestamp g') = sf_lastTimestamp g'"
  shows "parse_id g' ident =
           Inr \<lparr>p_timestamp = sf_lastTimestamp g', p_workerId = workerId (sf_config g),
                 p_sequence = sf_sequence g'\<rparr>"
proof -
  from generate_result [OF assms(1)]
  have ident: "ident = int_toString (compose_id (epoch (sf_config g)) (sf_lastTimestamp g')
                   (workerId (sf_config g)) (sf_sequence g'))"
    and cfg: "sf_config g' = sf_config g"
    and s0: "0 \<le> sf_sequence g'" and s1: "sf_sequence g' < 2 ^ 12"
    by simp_all
  have w: "workerId (sf_config g) < 2 ^ 10" using assms(3) by simp
  have n: "number_of_bigint (workerId (sf_config g)) = workerId (sf_config g)"
    "number_of_bigint (sf_sequence g') = sf_sequence g'"
    using assms(2,3) s0 s1 by (simp_all add: number_of_bigint_small)
  show ?thesis
    by (simp add: parse_id_def ident cfg bigint_of_string_toString
        compose_id_sequence [OF s0 s1] compose_id_workerId [OF assms(2) w s0 s1]
        compose_id_timestamp [OF assms(2) w s0 s1] n assms(4))
qed

section \<open>Properties of the compression pipeline\<close>

text \<open>
  The reduction from 1000 to 900 bytes is \<open>9.999999999999998\<close> in doubles, not 10.
\<close>

lemma reduction_pct_1000_900: "\<not> js_ge (reduction_pct 1000 900) 10"
  by code_simp









section \<open>Properties of the request tracker\<close>

lemma clearRetryTimer_state:
  assumes "handlers w messageId = Some h"
  shows "clearRetryTimer w messageId =
           w\<lparr>pending_timers := pending_timers w - set_option (rh_retryTimer h),
             handlers := (handlers w)(messageId \<mapsto> h\<lparr>rh_retryTimer := None\<rparr>)\<rparr>"
proof (cases "rh_retryTimer h")
  case None
  then have "h\<lparr>rh_retryTimer := None\<rparr> = h" by simp
  with None assms show ?thesis
    by (simp add: clearRetryTimer_def map_upd_triv)
next
  case (Some t)
  with assms show ?thesis
    by (simp add: clearRetryTimer_def clearTimeout_def)
qed

lemma invokeAndRemove_untracked:
  "handlers w messageId = None \<Longrightarrow> invokeAndRemove run w messageId response = (Inr False, w)"
  by (simp add: invokeAndRemove_def)

text \<open>
  For a tracked request, \<^verbatim>\<open>invokeAndRemove\<close> calls the callback once, in the state
  \<open>ready\<close>: both timers cancelled, the request's entry still in the map.
\<close>

lemma invokeAndRemove_tracked:
  assumes "handlers w messageId = Some h"
  shows "invokeAndRemove run w messageId response =
           (let ready = w\<lparr>pending_timers := pending_timers w - set_option (rh_retryTimer h)
                                             - set_option (rh_timeoutId h),
                          handlers := (handlers w)(messageId \<mapsto> h\<lparr>rh_retryTimer := None\<rparr>)\<rparr>;
                (outcome, after) = run (rh_callback h) response ready
            in case outcome of
                 Returned \<Rightarrow> (Inr True, after\<lparr>handlers := (handlers after)(messageId := None)\<rparr>)
               | Threw error \<Rightarrow>
                   (case message_of_thrown error of
                      Inl type_error \<Rightarrow> (Inl type_error, after)
                    | Inr message \<Rightarrow>
                        (Inr True,
                         after\<lparr>error_log := error_log after @
                                  [''Callback error for '' @ messageId @ '': ''
                                     @ template_text message],
                               handlers := (handlers after)(messageId := None)\<rparr>)))"
proof -
  have w2: "(case rh_timeoutId h of None \<Rightarrow> clearRetryTimer w messageId
             | Some t \<Rightarrow> clearTimeout (clearRetryTimer w messageId) t) =
            w\<lparr>pending_timers := pending_timers w - set_option (rh_retryTimer h)
                                  - set_option (rh_timeoutId h),
              handlers := (handlers w)(messageId \<mapsto> h\<lparr>rh_retryTimer := None\<rparr>)\<rparr>"
    by (cases "rh_timeoutId h")
       (simp_all add: clearRetryTimer_state[OF assms] clearTimeout_def)
  show ?thesis
    using assms
    by (simp add: invokeAndRemove_def w2 Let_def
        split: prod.splits completion.splits sum.splits)
qed

lemma message_of_thrown_throws_iff:
  "(\<exists>e. message_of_thrown t = Inl e) = (t = ThrownValue None \<or> t = ThrownValue (Some JNull))"
proof (cases t)
  case (ThrownError e)
  then show ?thesis by simp
next
  case (ThrownValue v)
  show ?thesis
  proof (cases v)
    case None
    with ThrownValue show ?thesis by simp
  next
    case (Some x)
    with ThrownValue show ?thesis by (cases x) simp_all
  qed
qed

text \<open>
  When the callback returns, or throws a value whose \<open>message\<close> can be read, the error
  is logged and the entry is deleted after the call.
\<close>

lemma invokeAndRemove_returned:
  assumes "handlers w messageId = Some h"
    and "run (rh_callback h) response
           (w\<lparr>pending_timers := pending_timers w - set_option (rh_retryTimer h)
                                  - set_option (rh_timeoutId h),
              handlers := (handlers w)(messageId \<mapsto> h\<lparr>rh_retryTimer := None\<rparr>)\<rparr>)
         = (Returned, after)"
  shows "invokeAndRemove run w messageId response =
           (Inr True, after\<lparr>handlers := (handlers after)(messageId := None)\<rparr>)"
  using assms(2) by (simp add: invokeAndRemove_tracked [OF assms(1)] Let_def)

lemma invokeAndRemove_caught:
  assumes "handlers w messageId = Some h"
    and "run (rh_callback h) response
           (w\<lparr>pending_timers := pending_timers w - set_option (rh_retryTimer h)
                                  - set_option (rh_timeoutId h),
              handlers := (handlers w)(messageId \<mapsto> h\<lparr>rh_retryTimer := None\<rparr>)\<rparr>)
         = (Threw error, after)"
    and "message_of_thrown error = Inr message"
  shows "invokeAndRemove run w messageId response =
           (Inr True,
            after\<lparr>error_log := error_log after @
                     [''Callback error for '' @ messageId @ '': '' @ template_text message],
                  handlers := (handlers after)(messageId := None)\<rparr>)"
  using assms(2,3) by (simp add: invokeAndRemove_tracked [OF assms(1)] Let_def)

text \<open>
  When the callback throws \<^verbatim>\<open>null\<close> or \<^verbatim>\<open>undefined\<close>, a TypeError leaves
  \<^verbatim>\<open>invokeAndRemove\<close>: nothing is logged and the tracker is left as the callback left it,
  the entry not deleted.
\<close>

lemma invokeAndRemove_escapes:
  assumes "handlers w messageId = Some h"
    and "run (rh_callback h) response
           (w\<lparr>pending_timers := pending_timers w - set_option (rh_retryTimer h)
                                  - set_option (rh_timeoutId h),
              handlers := (handlers w)(messageId \<mapsto> h\<lparr>rh_retryTimer := None\<rparr>)\<rparr>)
         = (Threw (ThrownValue v), after)"
    and "v = None \<or> v = Some JNull"
  shows "\<exists>e. invokeAndRemove run w messageId response = (Inl (TypeError e), after)"
  using assms(2,3) by (auto simp: invokeAndRemove_tracked [OF assms(1)] Let_def)

text \<open>
  The timeout path of \<^verbatim>\<open>register\<close>, for comparison: it removes the entry first and
  calls \<^verbatim>\<open>onTimeout\<close> afterwards, in a state where the request is no longer tracked.
\<close>

lemma register_timeout_removes_first:
  assumes "handlers w messageId = Some h"
  shows "\<exists>w'. register_timeout run_timeout w messageId (Some c) = run_timeout c messageId w'
              \<and> handlers w' messageId = None
              \<and> pending_timers w' = pending_timers w - set_option (rh_retryTimer h)
                                       - set_option (rh_timeoutId h)"
proof -
  have w2: "(case rh_timeoutId h of None \<Rightarrow> clearRetryTimer w messageId
             | Some t \<Rightarrow> clearTimeout (clearRetryTimer w messageId) t) =
            w\<lparr>pending_timers := pending_timers w - set_option (rh_retryTimer h)
                                  - set_option (rh_timeoutId h),
              handlers := (handlers w)(messageId \<mapsto> h\<lparr>rh_retryTimer := None\<rparr>)\<rparr>"
    by (cases "rh_timeoutId h")
       (simp_all add: clearRetryTimer_state[OF assms] clearTimeout_def)
  let ?w' = "w\<lparr>pending_timers := pending_timers w - set_option (rh_retryTimer h)
                                      - set_option (rh_timeoutId h),
                  handlers := (handlers w)(messageId := None),
                  warn_log := warn_log w @
                    [''Request '' @ messageId @ '' timed out after ''
                       @ int_toString (requestTimeout w) @ ''ms'']\<rparr>"
  have "register_timeout run_timeout w messageId (Some c) = run_timeout c messageId ?w'"
    using assms by (simp add: register_timeout_def remove_def w2 Let_def)
  then show ?thesis
    by (intro exI [of _ ?w']) simp
qed

lemma example_timers: "{Suc 0, 2} - {2} - {Suc 0} = ({} :: nat set)"
  by auto

text \<open>
  The three callbacks on the example tracker. Each of them finds the entry of its own
  request in the map (\<open>app = Some True\<close>). After a return or a thrown Error object the
  entry is gone; \<^verbatim>\<open>onTimeout\<close>, on the other path, does not find the entry.
\<close>

lemma invokeAndRemove_example_returns:
  "invokeAndRemove probe_run (example_tracker ProbeReturns) ''req-1'' (JStr ''response'') =
     (Inr True,
      \<lparr>requestTimeout = 5000, handlers = Map.empty, pending_timers = {}, error_log = [],
       warn_log = [], app = Some True\<rparr>)"
  using example_timers
  by (simp add: invokeAndRemove_def clearRetryTimer_def clearTimeout_def
      example_tracker_def example_handler_def probe_run_def Let_def)

lemma invokeAndRemove_example_throws_Error:
  "invokeAndRemove probe_run (example_tracker ProbeThrowsError) ''req-1'' (JStr ''response'') =
     (Inr True,
      \<lparr>requestTimeout = 5000, handlers = Map.empty, pending_timers = {},
       error_log = [''Callback error for req-1: Callback error''],
       warn_log = [], app = Some True\<rparr>)"
  using example_timers
  by (simp add: invokeAndRemove_def clearRetryTimer_def clearTimeout_def
      example_tracker_def example_handler_def probe_run_def template_text_def Let_def)

lemma register_timeout_example:
  "register_timeout probe_timeout (example_tracker ProbeReturns) ''req-1'' (Some ()) =
     (Returned,
      \<lparr>requestTimeout = 5000, handlers = Map.empty, pending_timers = {}, error_log = [],
       warn_log = [''Request req-1 timed out after 5000ms''], app = Some False\<rparr>)"
proof -
  have d: "int_toString 5000 = ''5000''" by code_simp
  show ?thesis
    using example_timers
    by (simp add: register_timeout_def remove_def clearRetryTimer_def
        clearTimeout_def example_tracker_def example_handler_def probe_timeout_def d Let_def)
qed

text \<open>
  C7. \<^verbatim>\<open>invokeAndRemove\<close> should remove the entry before the callback fires, so that
  the callback never finds its own entry, and should catch and log any exception the
  callback throws. The code breaks both. Here the callback of the tracked request
  \<open>req-1\<close> looks its id up, finds the entry, and throws \<^verbatim>\<open>null\<close>: the \<^verbatim>\<open>catch\<close> block's
  read of \<^verbatim>\<open>error.message\<close> raises a TypeError that leaves \<^verbatim>\<open>invokeAndRemove\<close>; nothing
  is logged, no result is returned, and the entry (its timers cancelled) stays in the
  map.
\<close>

theorem invokeAndRemove_callback_throws_null:
  "invokeAndRemove probe_run (example_tracker ProbeThrowsNull) ''req-1'' (JStr ''response'') =
     (Inl (TypeError ''Cannot read properties of null (reading 'message')''),
      \<lparr>requestTimeout = 5000,
       handlers = [''req-1'' \<mapsto> (example_handler ProbeThrowsNull)\<lparr>rh_retryTimer := None\<rparr>],
       pending_timers = {}, error_log = [], warn_log = [], app = Some True\<rparr>)"
proof -
  have "{Suc 0, 2} - {2} - {Suc 0} = ({} :: nat set)" by auto
  then show ?thesis
    by (simp add: invokeAndRemove_def clearRetryTimer_def clearTimeout_def
        example_tracker_def example_handler_def probe_run_def Let_def)
qed


section \<open>Properties of the send path\<close>




lemma createEnvelope_flags:
  "env_flags (createEnvelope ident t body opts) =
     Some (encodeFlags (MessageType_value t)
            (CodecNumber (CompressionCodecType_value
               (case opt_codec opts of None \<Rightarrow> NONE | Some c \<Rightarrow> c)))
            (case opt_isCompressed opts of None \<Rightarrow> False | Some b \<Rightarrow> b)
            (case opt_isChunked opts of None \<Rightarrow> False | Some b \<Rightarrow> b))"
  by (simp add: createEnvelope_def Let_def)

lemma createEnvelope_id: "env_id (createEnvelope ident t body opts) = ident"
  by (simp add: createEnvelope_def Let_def)

lemma createEnvelope_body: "env_body (createEnvelope ident t body opts) = body"
  by (simp add: createEnvelope_def Let_def)

lemma createEnvelope_chunk_fields:
  "env_ci (createEnvelope ident t body opts) =
     (if opt_isChunked opts = Some True \<and> opt_chunkIndex opts \<noteq> None \<and> opt_chunkTotal opts \<noteq> None
      then opt_chunkIndex opts else None)"
  "env_ct (createEnvelope ident t body opts) =
     (if opt_isChunked opts = Some True \<and> opt_chunkIndex opts \<noteq> None \<and> opt_chunkTotal opts \<noteq> None
      then opt_chunkTotal opts else None)"
  by (auto simp: createEnvelope_def Let_def split: option.splits)

lemma createEnvelope_size_fields:
  "env_os (createEnvelope ident t body opts) =
     (if opt_isCompressed opts = Some True then opt_originalSize opts else None)"
  "env_cs (createEnvelope ident t body opts) =
     (if opt_isCompressed opts = Some True then opt_compressedSize opts else None)"
  by (auto simp: createEnvelope_def Let_def split: option.splits)

lemma decodeFlags_REQ:
  "decodeFlags (Some (encodeFlags 0 (CodecNumber (CompressionCodecType_value c)) a b)) =
     Some \<lparr>df_type = 0, df_codec = c, df_isCompressed = a, df_isChunked = b\<rparr>"
  using decodeFlags_of_encodeFlags [of REQ c a b] by simp


















lemma codec_bits_of_encodeFlags:
  "js_and (encodeFlags (MessageType_value t) (CodecNumber (CompressionCodecType_value c)) a b)
     CODEC_MASK = CompressionCodecType_value c"
  by (cases t; cases c; cases a; cases b)
     (simp_all add: encodeFlags_def js_or_def js_and_def js_shl_def to_int32_def
        CODEC_MASK_def COMPRESSED_def CHUNKED_def TYPE_SHIFT_def)

lemma encodeFlags_REQ:
  "encodeFlags 0 (CodecNumber (CompressionCodecType_value c)) a b =
     CompressionCodecType_value c + (if a then 8 else 0) + (if b then 16 else 0)"
  using encodeFlags_value [of REQ c a b] by simp

lemma codec_bits_REQ:
  "js_and (encodeFlags 0 (CodecNumber (CompressionCodecType_value c)) a b) CODEC_MASK
     = CompressionCodecType_value c"
  using codec_bits_of_encodeFlags [of REQ c a b] by simp

text \<open>
  C4. A chunked send of \<open>N\<close> chunks with a compression result: chunk \<open>i\<close> has the id
  \<open>base-chunk-i\<close>, \<open>ci = i\<close> and \<open>ct = N\<close>; the codec bits of every chunk's flags are the
  codec's index; the compressed bit is set on chunk 0 only, and \<open>os\<close> and \<open>cs\<close> are
  present on chunk 0 only.
\<close>

theorem sendChunkedMessage_envelopes:
  assumes "generate (idGenerator sock) clock = Some (Inr messageId, g, clock')"
    and "createChunks rt (chunking_config (chunkingHandler sock)) (Inl (string_of_body rt body))
           = Some chunk_list"
  shows "\<exists>envs. sendChunkedMessage rt sock clock body (Some r) =
                  Some (Sent envs, sock\<lparr>idGenerator := g\<rparr>, clock')
           \<and> length envs = length chunk_list
           \<and> (\<forall>i < length chunk_list.
                 env_id (envs ! i) = messageId @ ''-chunk-'' @ int_toString (int i)
               \<and> env_body (envs ! i) = JStr (chunk_list ! i)
               \<and> env_ci (envs ! i) = Some (int i)
               \<and> env_ct (envs ! i) = Some (int (length chunk_list))
               \<and> env_flags (envs ! i) =
                   Some (CompressionCodecType_value (cr_codec r) + (if i = 0 then 8 else 0) + 16)
               \<and> (\<exists>f. env_flags (envs ! i) = Some f
                       \<and> js_and f CODEC_MASK = CompressionCodecType_value (cr_codec r))
               \<and> decodeFlags (env_flags (envs ! i)) =
                   Some \<lparr>df_type = MessageType_value REQ, df_codec = cr_codec r,
                         df_isCompressed = (i = 0), df_isChunked = True\<rparr>
               \<and> env_os (envs ! i) = (if i = 0 then Some (cr_originalSize r) else None)
               \<and> env_cs (envs ! i) = (if i = 0 then Some (cr_compressedSize r) else None))"
proof -
  define envelope where "envelope i =
      createEnvelope (messageId @ ''-chunk-'' @ int_toString (int i)) REQ (JStr (chunk_list ! i))
        \<lparr>opt_checksum = (if enableChecksum (socket_config sock)
                          then Some (calculateChecksum rt (JStr (chunk_list ! i))) else None),
         opt_codec = Some (cr_codec r),
         opt_isCompressed = Some (i = 0),
         opt_isChunked = Some True,
         opt_chunkIndex = Some (int i),
         opt_chunkTotal = Some (int (length chunk_list)),
         opt_originalSize = (if i = 0 then Some (cr_originalSize r) else None),
         opt_compressedSize = (if i = 0 then Some (cr_compressedSize r) else None)\<rparr>" for i
  define envs where "envs = map envelope [0 ..< length chunk_list]"
  have res: "sendChunkedMessage rt sock clock body (Some r) =
               Some (Sent envs, sock\<lparr>idGenerator := g\<rparr>, clock')"
    using assms by (simp add: sendChunkedMessage_def Let_def envs_def envelope_def)
  have len: "length envs = length chunk_list"
    by (simp add: envs_def)
  have nth: "envs ! i = envelope i" if "i < length chunk_list" for i
    using that by (simp add: envs_def)
  have fields: "env_id (envelope i) = messageId @ ''-chunk-'' @ int_toString (int i)
      \<and> env_body (envelope i) = JStr (chunk_list ! i)
      \<and> env_ci (envelope i) = Some (int i)
      \<and> env_ct (envelope i) = Some (int (length chunk_list))
      \<and> env_os (envelope i) = (if i = 0 then Some (cr_originalSize r) else None)
      \<and> env_cs (envelope i) = (if i = 0 then Some (cr_compressedSize r) else None)" for i
    by (simp add: envelope_def createEnvelope_id createEnvelope_body
        createEnvelope_chunk_fields createEnvelope_size_fields)
  have enc: "env_flags (envelope i) =
      Some (encodeFlags 0 (CodecNumber (CompressionCodecType_value (cr_codec r))) (i = 0) True)" for i
    by (simp add: envelope_def createEnvelope_flags)
  have flags: "env_flags (envelope i) =
      Some (CompressionCodecType_value (cr_codec r) + (if i = 0 then 8 else 0) + 16)" for i
    using encodeFlags_REQ [of "cr_codec r" "i = 0" True] by (simp add: enc)
  have bits: "\<exists>f. env_flags (envelope i) = Some f
      \<and> js_and f CODEC_MASK = CompressionCodecType_value (cr_codec r)" for i
    using codec_bits_REQ [of "cr_codec r" "i = 0" True] by (simp add: enc)
  have dec: "decodeFlags (env_flags (envelope i)) =
      Some \<lparr>df_type = MessageType_value REQ, df_codec = cr_codec r,
            df_isCompressed = (i = 0), df_isChunked = True\<rparr>" for i
    using decodeFlags_REQ [of "cr_codec r" "i = 0" True] by (simp add: enc)
  show ?thesis
    using res len nth fields flags bits dec by (intro exI [of _ envs]) simp
qed

lemma ex_generate:
  "generate (idGenerator example_socket) [1762128000000] =
     Some (Inr ''243524645683212288'', example_generator\<lparr>sf_lastTimestamp := 1762128000000\<rparr>, [])"
  by code_simp

lemma ex_compressed:
  "compressionResult_of example_runtime example_socket
     (JStr ''aaaaaaaaaabbbbbbbbbbccccccccccdddddddddd'') = Some example_compressed"
  by code_simp

lemma ex_chunks:
  "createChunks example_runtime (chunking_config (chunkingHandler example_socket))
     (Inl (string_of_body example_runtime (JStr (cr_data example_compressed)))) =
   Some [''QVNJSw=='', ''WVFwaQ=='', ''Q21NSw=='', ''WkFFaQ=='']"
  by code_simp

theorem sendChunkedMessage_envelopes_witness:
  "\<exists>envs. sendChunkedMessage example_runtime example_socket [1762128000000]
            (JStr (cr_data example_compressed)) (Some example_compressed) =
          Some (Sent envs,
                example_socket\<lparr>idGenerator := example_generator\<lparr>sf_lastTimestamp := 1762128000000\<rparr>\<rparr>, [])
        \<and> length envs = 4
        \<and> env_id (envs ! 0) = ''243524645683212288-chunk-0''
        \<and> env_id (envs ! 3) = ''243524645683212288-chunk-3''
        \<and> env_flags (envs ! 0) = Some 25
        \<and> env_flags (envs ! 3) = Some 17
        \<and> env_os (envs ! 0) = Some 42 \<and> env_cs (envs ! 0) = Some 12
        \<and> env_os (envs ! 3) = None \<and> env_cs (envs ! 3) = None
        \<and> env_ci (envs ! 3) = Some 3 \<and> env_ct (envs ! 3) = Some 4"
proof -
  let ?chunk_list = "[''QVNJSw=='', ''WVFwaQ=='', ''Q21NSw=='', ''WkFFaQ=='']"
  from sendChunkedMessage_envelopes [OF ex_generate ex_chunks, of example_compressed]
  obtain envs where
    res: "sendChunkedMessage example_runtime example_socket [1762128000000]
            (JStr (cr_data example_compressed)) (Some example_compressed) =
          Some (Sent envs,
                example_socket\<lparr>idGenerator := example_generator\<lparr>sf_lastTimestamp := 1762128000000\<rparr>\<rparr>, [])"
    and len: "length envs = length ?chunk_list"
    and each: "\<And>i. i < length ?chunk_list \<Longrightarrow>
                 env_id (envs ! i) = ''243524645683212288'' @ ''-chunk-'' @ int_toString (int i)
               \<and> env_ci (envs ! i) = Some (int i)
               \<and> env_ct (envs ! i) = Some (int (length ?chunk_list))
               \<and> env_flags (envs ! i) =
                   Some (CompressionCodecType_value (cr_codec example_compressed)
                           + (if i = 0 then 8 else 0) + 16)
               \<and> env_os (envs ! i) = (if i = 0 then Some (cr_originalSize example_compressed) else None)
               \<and> env_cs (envs ! i) = (if i = 0 then Some (cr_compressedSize example_compressed) else None)"
    by blast
  have d: "int_toString 0 = ''0''" "int_toString 3 = ''3''" by code_simp+
  have e0: "env_id (envs ! 0) = ''243524645683212288-chunk-0''"
    "env_flags (envs ! 0) = Some 25" "env_os (envs ! 0) = Some 42" "env_cs (envs ! 0) = Some 12"
    using each [of 0] d by (simp_all add: example_compressed_def)
  have e3: "env_id (envs ! 3) = ''243524645683212288-chunk-3''"
    "env_flags (envs ! 3) = Some 17" "env_os (envs ! 3) = None" "env_cs (envs ! 3) = None"
    "env_ci (envs ! 3) = Some 3" "env_ct (envs ! 3) = Some 4"
    using each [of 3] d by (simp_all add: example_compressed_def)
  from res len e0 e3 show ?thesis
    by (intro exI [of _ envs]) simp
qed

section \<open>Properties of the receive path\<close>

lemma createEnvelope_ACK: "createEnvelope ident ACK JNull no_options = acknowledgement ident"
  by (simp add: createEnvelope_def no_options_def acknowledgement_def truthy_string_def
      encodeFlags_def js_or_def js_shl_def to_int32_def TYPE_SHIFT_def Let_def)

lemma emitMessage_event: "emitMessage rt data info = Inr ev \<Longrightarrow> \<not> is_SocketSend ev"
  by (auto simp: emitMessage_def split: option.splits)

lemma handleSingleRequest_events:
  "handleSingleRequest rt sock req rinfo = (evs, sock', err)
     \<Longrightarrow> \<forall>e \<in> set evs. \<not> is_SocketSend e"
  by (auto simp: handleSingleRequest_def Let_def split: option.splits sum.splits if_splits
      dest: emitMessage_event)

lemma handleChunkedRequest_events:
  "handleChunkedRequest rt sock now req req_ci req_ct rinfo = (evs, sock', err)
     \<Longrightarrow> \<forall>e \<in> set evs. \<not> is_SocketSend e"
  by (auto simp: handleChunkedRequest_def Let_def
      split: option.splits sum.splits if_splits prod.splits
      dest: emitMessage_event)

lemma ex_digest: "calculateChecksum example_runtime (JStr ''hello'') = ''532''"
  by code_simp

lemma handleRequest_single_state:
  "env_ci req = None \<Longrightarrow> fst (snd (handleRequest rt sock now req rinfo)) = sock"
  by (auto simp: handleRequest_def handleSingleRequest_def Let_def
      split: option.splits sum.splits prod.splits if_splits)

text \<open>
  C1, as stated, fails for a REQ whose checksum is the empty string: the test
  \<^verbatim>\<open>req.checksum\<close> is false for it, the digest is not compared, and the REQ is
  acknowledged and delivered although its checksum does not match the digest of its
  body (no digest is the empty string).
\<close>

theorem handleRequest_empty_checksum_counterexample:
  "enableChecksum (socket_config example_socket)
   \<and> env_checksum (example_request (Some [])) = Some []
   \<and> calculateChecksum example_runtime (env_body (example_request (Some []))) = ''532''
   \<and> fst (handleRequest example_runtime example_socket 0 (example_request (Some [])) example_rinfo) =
       [SocketSend (serialize example_runtime (acknowledgement ''7'')) 41234 ''127.0.0.1'',
        SocketEmitData (JStr ''hello'') example_rinfo]
   \<and> snd (handleRequest example_runtime example_socket 0 (example_request (Some [])) example_rinfo) =
       (example_socket, None)"
proof -
  let ?r = "handleRequest example_runtime example_socket 0 (example_request (Some [])) example_rinfo"
  have "enableChecksum (socket_config example_socket)"
    by (simp add: example_socket_def)
  moreover have "env_checksum (example_request (Some [])) = Some []"
    by (simp add: example_request_def)
  moreover have "calculateChecksum example_runtime (env_body (example_request (Some []))) = ''532''"
    by (simp add: example_request_def ex_digest)
  moreover have "fst ?r =
       [SocketSend (serialize example_runtime (acknowledgement ''7'')) 41234 ''127.0.0.1'',
        SocketEmitData (JStr ''hello'') example_rinfo]"
    by code_simp
  moreover have "fst (snd ?r) = example_socket"
    by (rule handleRequest_single_state) (simp add: example_request_def)
  moreover have "snd (snd ?r) = None"
    by code_simp
  ultimately show ?thesis
    by (simp add: prod_eq_iff)
qed

text \<open>
  C1, amended. If checksums are enabled and the REQ carries a non-empty checksum that
  differs from the digest of its body, the handler does nothing: no datagram is sent,
  nothing is delivered, the engine is unchanged. In every other case the first thing the
  handler does is to send the ACK envelope with the REQ's id to the source; the calls
  into the reassembler and the decompressor and the delivery to the application come
  after it, and no other datagram is sent.
\<close>

theorem handleRequest_checksum_then_ack:
  "(enableChecksum (socket_config sock)
      \<and> (\<exists>c. env_checksum req = Some c \<and> c \<noteq> [] \<and> c \<noteq> calculateChecksum rt (env_body req))
     \<longrightarrow> handleRequest rt sock now req rinfo = ([], sock, None))
   \<and> (\<not> (enableChecksum (socket_config sock)
      \<and> (\<exists>c. env_checksum req = Some c \<and> c \<noteq> [] \<and> c \<noteq> calculateChecksum rt (env_body req)))
     \<longrightarrow> (\<exists>rest sock' err.
            handleRequest rt sock now req rinfo =
              (SocketSend (serialize rt (acknowledgement (env_id req)))
                 (rinfo_port rinfo) (rinfo_address rinfo) # rest, sock', err)
            \<and> (rest, sock', err) =
                (case (env_ci req, env_ct req) of
                   (Some req_ci, Some req_ct) \<Rightarrow>
                     handleChunkedRequest rt sock now req req_ci req_ct rinfo
                 | _ \<Rightarrow> handleSingleRequest rt sock req rinfo)
            \<and> (\<forall>e \<in> set rest. \<not> is_SocketSend e)))"
proof (intro conjI impI)
  assume "enableChecksum (socket_config sock)
      \<and> (\<exists>c. env_checksum req = Some c \<and> c \<noteq> [] \<and> c \<noteq> calculateChecksum rt (env_body req))"
  then show "handleRequest rt sock now req rinfo = ([], sock, None)"
    by (auto simp: handleRequest_def truthy_string_def)
next
  assume ok: "\<not> (enableChecksum (socket_config sock)
      \<and> (\<exists>c. env_checksum req = Some c \<and> c \<noteq> [] \<and> c \<noteq> calculateChecksum rt (env_body req)))"
  then have guard: "\<not> (enableChecksum (socket_config sock) \<and> truthy_string (env_checksum req)
         \<and> Some (calculateChecksum rt (env_body req)) \<noteq> env_checksum req)"
    by (auto simp: truthy_string_def split: option.splits)
  obtain evs sock' err where work:
    "(case (env_ci req, env_ct req) of
        (Some req_ci, Some req_ct) \<Rightarrow> handleChunkedRequest rt sock now req req_ci req_ct rinfo
      | _ \<Rightarrow> handleSingleRequest rt sock req rinfo) = (evs, sock', err)"
    by (metis prod_cases3)
  then have "\<forall>e \<in> set evs. \<not> is_SocketSend e"
    by (auto split: option.splits dest: handleSingleRequest_events handleChunkedRequest_events)
  moreover have "handleRequest rt sock now req rinfo =
      (SocketSend (serialize rt (acknowledgement (env_id req)))
         (rinfo_port rinfo) (rinfo_address rinfo) # evs, sock', err)"
    using guard work
    by (simp add: handleRequest_def sendAcknowledgement_def createEnvelope_ACK Let_def)
  ultimately show "\<exists>rest sock' err.
            handleRequest rt sock now req rinfo =
              (SocketSend (serialize rt (acknowledgement (env_id req)))
                 (rinfo_port rinfo) (rinfo_address rinfo) # rest, sock', err)
            \<and> (rest, sock', err) =
                (case (env_ci req, env_ct req) of
                   (Some req_ci, Some req_ct) \<Rightarrow>
                     handleChunkedRequest rt sock now req req_ci req_ct rinfo
                 | _ \<Rightarrow> handleSingleRequest rt sock req rinfo)
            \<and> (\<forall>e \<in> set rest. \<not> is_SocketSend e)"
    using work by metis
qed


theorem handleRequest_checksum_then_ack_witness:
  "handleRequest example_runtime example_socket 0 (example_request (Some ''999'')) example_rinfo =
     ([], example_socket, None)
   \<and> (\<exists>rest sock' err.
        handleRequest example_runtime example_socket 0 (example_request (Some ''532'')) example_rinfo =
          (SocketSend (serialize example_runtime (acknowledgement ''7'')) 41234 ''127.0.0.1'' # rest,
           sock', err))"
proof -
  have en: "enableChecksum (socket_config example_socket)"
    by (simp add: example_socket_def)
  have r: "rinfo_port example_rinfo = 41234" "rinfo_address example_rinfo = ''127.0.0.1''"
    by (simp_all add: example_rinfo_def)
  from handleRequest_checksum_then_ack
         [of example_socket "example_request (Some ''999'')" example_runtime 0 example_rinfo]
  have 1: "handleRequest example_runtime example_socket 0 (example_request (Some ''999''))
             example_rinfo = ([], example_socket, None)"
    by (simp add: en example_request_def ex_digest)
  from handleRequest_checksum_then_ack
         [of example_socket "example_request (Some ''532'')" example_runtime 0 example_rinfo]
  have 2: "\<exists>rest sock' err.
        handleRequest example_runtime example_socket 0 (example_request (Some ''532'')) example_rinfo =
          (SocketSend (serialize example_runtime (acknowledgement ''7'')) 41234 ''127.0.0.1'' # rest,
           sock', err)"
    by (auto simp: en example_request_def ex_digest r)
  from 1 2 show ?thesis by blast
qed


end
